theory Spec2Isabelle
  imports Complex_Main "HOL-Library.Multiset" "HOL-Library.Sublist"
begin

section \<open>Numbers\<close>

text \<open>
  A JavaScript number is modelled as an exact real, or one of the three non-finite
  values. The rounding of IEEE-754 doubles and their overflow are not modelled; the
  guards \<open>Number.isFinite\<close> of the source are branches on the constructor.
\<close>

datatype jsnum = Fin real | NaN | PosInf | NegInf

text \<open>\<open>brRound(n)\<close> with the default \<open>digits = 2\<close>: \<open>Math.round(n * 100) / 100\<close>;
  \<open>Math.round\<close> rounds halves towards plus infinity.\<close>

definition brRound :: "real \<Rightarrow> real" where
  "brRound n = real_of_int \<lfloor>n * 100 + 1 / 2\<rfloor> / 100"

section \<open>Strings\<close>


definition isSpace :: "char \<Rightarrow> bool" where
  "isSpace c \<longleftrightarrow> c \<in> {CHR 0x09, CHR 0x0A, CHR 0x0B, CHR 0x0C, CHR 0x0D, CHR '' '', CHR 0xA0}"

definition isDigit :: "char \<Rightarrow> bool" where
  "isDigit c \<longleftrightarrow> c \<in> set ''0123456789''"

text \<open>\<open>s.trim()\<close>\<close>

definition trim :: "string \<Rightarrow> string" where
  "trim s = rev (dropWhile isSpace (rev (dropWhile isSpace s)))"

text \<open>\<open>s.replace(/\s+/g, " ")\<close>: every maximal run of white space becomes one space. The
  flag says that the previous character belonged to the current run.\<close>

fun collapseRuns :: "bool \<Rightarrow> string \<Rightarrow> string" where
  "collapseRuns inRun [] = []"
| "collapseRuns inRun (c # cs) =
     (if isSpace c then (if inRun then collapseRuns True cs else CHR '' '' # collapseRuns True cs)
      else c # collapseRuns False cs)"

definition collapseSpaces :: "string \<Rightarrow> string" where
  "collapseSpaces s = collapseRuns False s"




text \<open>\<open>s.startsWith(p)\<close>, \<open>s.endsWith(p)\<close>, \<open>s.includes(p)\<close>.\<close>

definition startsWith :: "string \<Rightarrow> string \<Rightarrow> bool" where
  "startsWith s p \<longleftrightarrow> prefix p s"


fun includesStr :: "string \<Rightarrow> string \<Rightarrow> bool" where
  "includesStr [] p \<longleftrightarrow> p = []"
| "includesStr (c # cs) p \<longleftrightarrow> prefix p (c # cs) \<or> includesStr cs p"

subsection \<open>Letter case and accents\<close>

text \<open>
  \<open>s.toUpperCase()\<close> on the code units 0 to 255: the letters a to z and the lower-case
  letters of Latin-1 map to their capitals, the sharp s (U+00DF) maps to \<open>SS\<close>; the
  capitals of the micro sign (U+00B5) and of y with diaeresis (U+00FF) lie outside the
  range and the model leaves these two characters unchanged.
\<close>

definition upperTable :: "(char \<times> char) list" where
  "upperTable =
    [(CHR ''a'', CHR ''A''), (CHR ''b'', CHR ''B''), (CHR ''c'', CHR ''C''), (CHR ''d'', CHR ''D''),
     (CHR ''e'', CHR ''E''), (CHR ''f'', CHR ''F''), (CHR ''g'', CHR ''G''), (CHR ''h'', CHR ''H''),
     (CHR ''i'', CHR ''I''), (CHR ''j'', CHR ''J''), (CHR ''k'', CHR ''K''), (CHR ''l'', CHR ''L''),
     (CHR ''m'', CHR ''M''), (CHR ''n'', CHR ''N''), (CHR ''o'', CHR ''O''), (CHR ''p'', CHR ''P''),
     (CHR ''q'', CHR ''Q''), (CHR ''r'', CHR ''R''), (CHR ''s'', CHR ''S''), (CHR ''t'', CHR ''T''),
     (CHR ''u'', CHR ''U''), (CHR ''v'', CHR ''V''), (CHR ''w'', CHR ''W''), (CHR ''x'', CHR ''X''),
     (CHR ''y'', CHR ''Y''), (CHR ''z'', CHR ''Z''), (CHR 0xE0, CHR 0xC0), (CHR 0xE1, CHR 0xC1),
     (CHR 0xE2, CHR 0xC2), (CHR 0xE3, CHR 0xC3), (CHR 0xE4, CHR 0xC4), (CHR 0xE5, CHR 0xC5),
     (CHR 0xE6, CHR 0xC6), (CHR 0xE7, CHR 0xC7), (CHR 0xE8, CHR 0xC8), (CHR 0xE9, CHR 0xC9),
     (CHR 0xEA, CHR 0xCA), (CHR 0xEB, CHR 0xCB), (CHR 0xEC, CHR 0xCC), (CHR 0xED, CHR 0xCD),
     (CHR 0xEE, CHR 0xCE), (CHR 0xEF, CHR 0xCF), (CHR 0xF0, CHR 0xD0), (CHR 0xF1, CHR 0xD1),
     (CHR 0xF2, CHR 0xD2), (CHR 0xF3, CHR 0xD3), (CHR 0xF4, CHR 0xD4), (CHR 0xF5, CHR 0xD5),
     (CHR 0xF6, CHR 0xD6), (CHR 0xF8, CHR 0xD8), (CHR 0xF9, CHR 0xD9), (CHR 0xFA, CHR 0xDA),
     (CHR 0xFB, CHR 0xDB), (CHR 0xFC, CHR 0xDC), (CHR 0xFD, CHR 0xDD), (CHR 0xFE, CHR 0xDE)]"

definition upperChar :: "char \<Rightarrow> string" where
  "upperChar c =
    (if c = CHR 0xDF then ''SS''
     else case map_of upperTable c of Some u \<Rightarrow> [u] | None \<Rightarrow> [c])"

definition toUpperCase :: "string \<Rightarrow> string" where
  "toUpperCase s = concat (map upperChar s)"

text \<open>
  \<open>s.normalize("NFD").replace(/[\u0300-\u036f]/g, "")\<close> on the same range: a letter of
  Latin-1 with a canonical decomposition loses its combining mark and becomes its base
  letter; every other character is kept.
\<close>

definition baseTable :: "(char \<times> char) list" where
  "baseTable =
    [(CHR 0xC0, CHR ''A''), (CHR 0xC1, CHR ''A''), (CHR 0xC2, CHR ''A''), (CHR 0xC3, CHR ''A''),
     (CHR 0xC4, CHR ''A''), (CHR 0xC5, CHR ''A''), (CHR 0xC7, CHR ''C''), (CHR 0xC8, CHR ''E''),
     (CHR 0xC9, CHR ''E''), (CHR 0xCA, CHR ''E''), (CHR 0xCB, CHR ''E''), (CHR 0xCC, CHR ''I''),
     (CHR 0xCD, CHR ''I''), (CHR 0xCE, CHR ''I''), (CHR 0xCF, CHR ''I''), (CHR 0xD1, CHR ''N''),
     (CHR 0xD2, CHR ''O''), (CHR 0xD3, CHR ''O''), (CHR 0xD4, CHR ''O''), (CHR 0xD5, CHR ''O''),
     (CHR 0xD6, CHR ''O''), (CHR 0xD9, CHR ''U''), (CHR 0xDA, CHR ''U''), (CHR 0xDB, CHR ''U''),
     (CHR 0xDC, CHR ''U''), (CHR 0xDD, CHR ''Y''), (CHR 0xE0, CHR ''a''), (CHR 0xE1, CHR ''a''),
     (CHR 0xE2, CHR ''a''), (CHR 0xE3, CHR ''a''), (CHR 0xE4, CHR ''a''), (CHR 0xE5, CHR ''a''),
     (CHR 0xE7, CHR ''c''), (CHR 0xE8, CHR ''e''), (CHR 0xE9, CHR ''e''), (CHR 0xEA, CHR ''e''),
     (CHR 0xEB, CHR ''e''), (CHR 0xEC, CHR ''i''), (CHR 0xED, CHR ''i''), (CHR 0xEE, CHR ''i''),
     (CHR 0xEF, CHR ''i''), (CHR 0xF1, CHR ''n''), (CHR 0xF2, CHR ''o''), (CHR 0xF3, CHR ''o''),
     (CHR 0xF4, CHR ''o''), (CHR 0xF5, CHR ''o''), (CHR 0xF6, CHR ''o''), (CHR 0xF9, CHR ''u''),
     (CHR 0xFA, CHR ''u''), (CHR 0xFB, CHR ''u''), (CHR 0xFC, CHR ''u''), (CHR 0xFD, CHR ''y''),
     (CHR 0xFF, CHR ''y'')]"

definition stripMark :: "char \<Rightarrow> char" where
  "stripMark c = (case map_of baseTable c of Some b \<Rightarrow> b | None \<Rightarrow> c)"

text \<open>\<open>normalizeText\<close> (the same in the normalizer, the KPI engine and the exact-totals
  module).\<close>

definition normalizeText :: "string \<Rightarrow> string" where
  "normalizeText s = trim (collapseSpaces (toUpperCase (map stripMark s)))"

subsection \<open>Numeric coercion of strings\<close>

text \<open>
  \<open>Number(s)\<close> on a string, after the StringToNumber grammar of ECMAScript: white space
  is trimmed; the empty string is 0; \<open>Infinity\<close> with an optional sign; a hexadecimal,
  octal or binary literal without sign; a signed decimal literal with optional fraction
  and exponent; anything else is NaN.
\<close>

definition digitTable :: "(char \<times> nat) list" where
  "digitTable =
    [(CHR ''0'', 0), (CHR ''1'', 1), (CHR ''2'', 2), (CHR ''3'', 3), (CHR ''4'', 4), (CHR ''5'', 5),
     (CHR ''6'', 6), (CHR ''7'', 7), (CHR ''8'', 8), (CHR ''9'', 9), (CHR ''a'', 10), (CHR ''b'', 11),
     (CHR ''c'', 12), (CHR ''d'', 13), (CHR ''e'', 14), (CHR ''f'', 15), (CHR ''A'', 10), (CHR ''B'', 11),
     (CHR ''C'', 12), (CHR ''D'', 13), (CHR ''E'', 14), (CHR ''F'', 15)]"

definition digitVal :: "char \<Rightarrow> nat" where
  "digitVal c = (case map_of digitTable c of Some v \<Rightarrow> v | None \<Rightarrow> 0)"

definition radixValue :: "nat \<Rightarrow> string \<Rightarrow> nat" where
  "radixValue b ds = foldl (\<lambda>a c. b * a + digitVal c) 0 ds"

definition decValue :: "string \<Rightarrow> nat" where
  "decValue ds = radixValue 10 ds"

definition isHexDigit :: "char \<Rightarrow> bool" where
  "isHexDigit c \<longleftrightarrow> c \<in> set ''0123456789abcdefABCDEF''"

definition radixLiteral :: "nat \<Rightarrow> (char \<Rightarrow> bool) \<Rightarrow> string \<Rightarrow> jsnum" where
  "radixLiteral b ok ds = (if ds \<noteq> [] \<and> list_all ok ds then Fin (real (radixValue b ds)) else NaN)"

definition exponentPart :: "real \<Rightarrow> string \<Rightarrow> jsnum" where
  "exponentPart m r =
    (if r = [] then Fin m
     else if hd r \<in> set ''eE'' then
       (let t = tl r;
            neg = (t \<noteq> [] \<and> hd t = CHR ''-'');
            ds = (if t \<noteq> [] \<and> hd t \<in> set ''+-'' then tl t else t)
        in if ds \<noteq> [] \<and> list_all isDigit ds
           then Fin (if neg then m / 10 ^ decValue ds else m * 10 ^ decValue ds)
           else NaN)
     else NaN)"

definition strUnsignedDecimal :: "string \<Rightarrow> jsnum" where
  "strUnsignedDecimal s =
    (if s = ''Infinity'' then PosInf
     else
       let ip = takeWhile isDigit s; r1 = dropWhile isDigit s;
           dot = (r1 \<noteq> [] \<and> hd r1 = CHR ''.'');
           fp = (if dot then takeWhile isDigit (tl r1) else []);
           r2 = (if dot then dropWhile isDigit (tl r1) else r1)
       in if ip = [] \<and> fp = [] then NaN
          else exponentPart (real (decValue ip) + real (decValue fp) / 10 ^ length fp) r2)"

definition jsNeg :: "jsnum \<Rightarrow> jsnum" where
  "jsNeg x = (case x of Fin r \<Rightarrow> Fin (- r) | NaN \<Rightarrow> NaN | PosInf \<Rightarrow> NegInf | NegInf \<Rightarrow> PosInf)"

definition NumberStr :: "string \<Rightarrow> jsnum" where
  "NumberStr s =
    (let t = trim s in
     if t = [] then Fin 0
     else if prefix ''0x'' t \<or> prefix ''0X'' t then radixLiteral 16 isHexDigit (drop 2 t)
     else if prefix ''0o'' t \<or> prefix ''0O'' t then radixLiteral 8 (\<lambda>c. c \<in> set ''01234567'') (drop 2 t)
     else if prefix ''0b'' t \<or> prefix ''0B'' t then radixLiteral 2 (\<lambda>c. c \<in> set ''01'') (drop 2 t)
     else if hd t = CHR ''+'' then strUnsignedDecimal (tl t)
     else if hd t = CHR ''-'' then jsNeg (strUnsignedDecimal (tl t))
     else strUnsignedDecimal t)"

text \<open>\<open>Number.isFinite(x) ? x : 0\<close>\<close>

definition finiteOr0 :: "jsnum \<Rightarrow> real" where
  "finiteOr0 x = (case x of Fin r \<Rightarrow> r | _ \<Rightarrow> 0)"

section \<open>Monetary token parser\<close>

text \<open>The pair \<open>{raw, value}\<close>.\<close>

record MoneyBR =
  m_raw :: string
  m_value :: jsnum








section \<open>Rows\<close>

datatype group_t = GrpATIVO | GrpPASSIVO | GrpDRE | GrpOUTROS

text \<open>
  The numeric columns of a normalized row have the type \<open>any\<close>: absent or \<open>null\<close>, a
  number, a string, or the pair \<open>{raw, value}\<close> that the ledger parser stores.
\<close>

datatype anyval = VNull | VNum jsnum | VStr string | VObj MoneyBR

record NormalizedBaseRow =
  period :: string
  year :: "real option"
  classification :: "string option"
  code :: "string option"
  description :: "string option"
  group :: "group_t option"
  saldoAtual :: anyval
  saldoAnterior :: anyval
  debito :: anyval
  credito :: anyval
  rawLine :: "string option"

text \<open>\<open>String(x ?? "")\<close> for an optional string.\<close>

definition optStr :: "string option \<Rightarrow> string" where
  "optStr x = (case x of None \<Rightarrow> [] | Some t \<Rightarrow> t)"

text \<open>\<open>numFromAny\<close> (the same in the KPI engine and the analysis engine).\<close>

definition numFromAny :: "anyval \<Rightarrow> real" where
  "numFromAny v =
    (case v of
       VNull \<Rightarrow> 0
     | VNum x \<Rightarrow> finiteOr0 x
     | VStr t \<Rightarrow> finiteOr0 (NumberStr t)
     | VObj m \<Rightarrow> finiteOr0 (m_value m))"

text \<open>
  \<open>Number(v ?? 0)\<close>, the plain coercion. For the pair \<open>{raw, value}\<close>, a plain object,
  \<open>Number\<close> takes its primitive value: \<open>valueOf\<close> returns the object itself, \<open>toString\<close>
  gives \<open>[object Object]\<close>, and that text is not a numeric literal.
\<close>

definition NumberAny :: "anyval \<Rightarrow> jsnum" where
  "NumberAny v =
    (case v of
       VNull \<Rightarrow> Fin 0
     | VNum x \<Rightarrow> x
     | VStr t \<Rightarrow> NumberStr t
     | VObj m \<Rightarrow> NumberStr ''[object Object]'')"

text \<open>\<open>safeNumber\<close> of the analysis engine, applied to \<open>v ?? 0\<close>.\<close>

definition safeNumber :: "anyval \<Rightarrow> real" where
  "safeNumber n = finiteOr0 (NumberAny n)"

section \<open>Magnitude correction of balance-sheet totals\<close>

datatype title = ATIVO | PASSIVO

text \<open>\<open>applyGluedFix\<close> of the KPI engine. The optional context \<open>ctx?.ativoTotal\<close> is
  \<open>None\<close> when absent (read as 0 by \<open>?? 0\<close>).\<close>

definition applyGluedFix :: "title \<Rightarrow> jsnum \<Rightarrow> real option \<Rightarrow> real" where
  "applyGluedFix ttl raw ctx =
    (case raw of
       Fin v \<Rightarrow>
         if \<bar>v\<bar> < 1 / 10 ^ 9 then 0
         else
           let sign = (if v < 0 then - 1 else 1 :: real); n = \<bar>v\<bar> in
           (case ttl of
              ATIVO \<Rightarrow>
                if n \<ge> 10000000 \<and> n < 20000000 \<and> n - 10000000 > 0 \<and> n - 10000000 < 9999999999
                then sign * (n - 10000000)
                else v
            | PASSIVO \<Rightarrow>
                let ativo = \<bar>case ctx of None \<Rightarrow> 0 | Some a \<Rightarrow> a\<bar> in
                if n \<ge> 30000000 \<and> n < 40000000 \<and>
                   (ativo = 0 \<or> (n / 10 > ativo * 0.2 \<and> n / 10 < ativo * 5))
                then sign * (n / 10)
                else if (if ativo > 0 then n > max (ativo * 20) 200000000 else n > 1000000000)
                then 0
                else if n \<ge> 20000000 \<and> n < 30000000 \<and> n - 20000000 > 0 \<and> n - 20000000 < 50000000
                then sign * (n - 20000000)
                else if n \<ge> 10000000 \<and> n < 20000000 \<and> n - 10000000 > 0 \<and> n - 10000000 < 50000000
                then sign * (n - 10000000)
                else v)
     | _ \<Rightarrow> 0)"

text \<open>\<open>applyGluedFixFromText\<close> of the exact-totals module: the same bands without the
  upper bounds on the corrected value.\<close>

definition applyGluedFixFromText :: "title \<Rightarrow> jsnum \<Rightarrow> real option \<Rightarrow> real" where
  "applyGluedFixFromText ttl raw ctx =
    (case raw of
       Fin v \<Rightarrow>
         if \<bar>v\<bar> < 1 / 10 ^ 9 then 0
         else
           let sign = (if v < 0 then - 1 else 1 :: real); n = \<bar>v\<bar> in
           (case ttl of
              ATIVO \<Rightarrow>
                if n \<ge> 10000000 \<and> n < 20000000 \<and> n - 10000000 > 0
                then sign * (n - 10000000)
                else v
            | PASSIVO \<Rightarrow>
                let ativo = \<bar>case ctx of None \<Rightarrow> 0 | Some a \<Rightarrow> a\<bar> in
                if n \<ge> 30000000 \<and> n < 40000000 \<and>
                   (ativo = 0 \<or> (n / 10 > ativo * 0.2 \<and> n / 10 < ativo * 5))
                then sign * (n / 10)
                else if (if ativo > 0 then n > max (ativo * 20) 200000000 else n > 1000000000)
                then 0
                else if n \<ge> 20000000 \<and> n < 30000000 \<and> n - 20000000 > 0
                then sign * (n - 20000000)
                else if n \<ge> 10000000 \<and> n < 20000000 \<and> n - 10000000 > 0
                then sign * (n - 10000000)
                else v)
     | _ \<Rightarrow> 0)"

section \<open>Classification normalizer\<close>

text \<open>
  The three expressions that the copies of \<open>normalizeClassification\<close> test:
  \<open>/^[1-3]\.\d/\<close>, \<open>/^([1-3])(\d)(\d)\.(\d+)$/\<close> and \<open>/^([1-3])(\d)(\d)(\d)$/\<close>. The
  last two return their groups.
\<close>

definition isRoot :: "char \<Rightarrow> bool" where
  "isRoot c \<longleftrightarrow> c \<in> set ''123''"

fun dottedStart :: "string \<Rightarrow> bool" where
  "dottedStart (a # b # c # rest) \<longleftrightarrow> isRoot a \<and> b = CHR ''.'' \<and> isDigit c"
| "dottedStart s \<longleftrightarrow> False"

fun fusedDecimal :: "string \<Rightarrow> (char \<times> char \<times> char \<times> string) option" where
  "fusedDecimal (a # b # c # d # ds) =
     (if isRoot a \<and> isDigit b \<and> isDigit c \<and> d = CHR ''.'' \<and> ds \<noteq> [] \<and> list_all isDigit ds
      then Some (a, b, c, ds) else None)"
| "fusedDecimal s = None"

fun fusedFour :: "string \<Rightarrow> (char \<times> char \<times> char \<times> char) option" where
  "fusedFour [a, b, c, d] =
     (if isRoot a \<and> isDigit b \<and> isDigit c \<and> isDigit d then Some (a, b, c, d) else None)"
| "fusedFour s = None"

text \<open>\<open>normalizeClassification\<close> of the normalizer (\<open>normalizeBase.ts\<close>). The second
  expression is first tested and then matched; both are the same expression.\<close>

definition normalizeClassification :: "string \<Rightarrow> string" where
  "normalizeClassification input =
    (let raw = trim input in
     if raw = [] then []
     else if dottedStart raw then raw
     else case fusedDecimal raw of
       Some (a, b, c, ds) \<Rightarrow> [a, CHR ''.'', b, CHR ''.'', c, CHR ''.''] @ ds
     | None \<Rightarrow>
       (case fusedFour raw of
          Some (a, b, c, d) \<Rightarrow> [a, CHR ''.'', b, CHR ''.'', c, CHR ''.'', d]
        | None \<Rightarrow> if length raw = 1 \<and> isRoot (hd raw) then raw else raw))"

text \<open>The copy of the KPI engine, without the final test of a bare root digit.\<close>

definition normalizeClassification_kpi :: "string \<Rightarrow> string" where
  "normalizeClassification_kpi input =
    (let raw = trim input in
     if raw = [] then []
     else if dottedStart raw then raw
     else case fusedDecimal raw of
       Some (a, b, c, ds) \<Rightarrow> [a, CHR ''.'', b, CHR ''.'', c, CHR ''.''] @ ds
     | None \<Rightarrow>
       (case fusedFour raw of
          Some (a, b, c, d) \<Rightarrow> [a, CHR ''.'', b, CHR ''.'', c, CHR ''.'', d]
        | None \<Rightarrow> raw))"

text \<open>The copy of the analysis engine: the expressions are matched without a test
  before, and a final test \<open>/^[1-3]\.0$/\<close> returns \<open>raw\<close> as every other case does.\<close>

definition normalizeClassification_ae :: "string \<Rightarrow> string" where
  "normalizeClassification_ae input =
    (let raw = trim input in
     if raw = [] then []
     else if dottedStart raw then raw
     else case fusedDecimal raw of
       Some (a, b, c, ds) \<Rightarrow> [a, CHR ''.'', b, CHR ''.'', c, CHR ''.''] @ ds
     | None \<Rightarrow>
       (case fusedFour raw of
          Some (a, b, c, d) \<Rightarrow> [a, CHR ''.'', b, CHR ''.'', c, CHR ''.'', d]
        | None \<Rightarrow> if raw = ''1.0'' \<or> raw = ''2.0'' \<or> raw = ''3.0'' then raw else raw))"

text \<open>\<open>groupFromClassification\<close> of the normalizer and of the analysis engine.\<close>

definition groupFromClassification :: "string \<Rightarrow> group_t" where
  "groupFromClassification clsRaw =
    (let cls = normalizeClassification clsRaw in
     if cls = ''1'' \<or> startsWith cls ''1.'' then GrpATIVO
     else if cls = ''2'' \<or> startsWith cls ''2.'' then GrpPASSIVO
     else if cls = ''3'' \<or> startsWith cls ''3.'' then GrpDRE
     else GrpOUTROS)"

definition groupFromClassification_ae :: "string \<Rightarrow> group_t" where
  "groupFromClassification_ae clsRaw =
    (let cls = normalizeClassification_ae clsRaw in
     if cls = ''1'' \<or> cls = ''1.0'' \<or> startsWith cls ''1.'' then GrpATIVO
     else if cls = ''2'' \<or> cls = ''2.0'' \<or> startsWith cls ''2.'' then GrpPASSIVO
     else if cls = ''3'' \<or> cls = ''3.0'' \<or> startsWith cls ''3.'' then GrpDRE
     else GrpOUTROS)"

section \<open>Normalizer\<close>

text \<open>A row of the ledger parser (\<open>ContabilRow\<close>); an optional field is \<open>None\<close> when it is
  absent or \<open>null\<close>.\<close>

record ContabilRow =
  cr_rawLine :: string
  cr_group :: "group_t option"
  cr_code :: "string option"
  cr_description :: "string option"
  cr_classification :: "string option"
  cr_saldoAtual :: "MoneyBR option"
  cr_saldoAnterior :: "MoneyBR option"
  cr_debito :: "MoneyBR option"
  cr_credito :: "MoneyBR option"

text \<open>The context \<open>{period, year}\<close>.\<close>

record normCtx =
  ctx_period :: string
  ctx_year :: "real option"

text \<open>\<open>x ?? null\<close> for a monetary column.\<close>

definition moneyAny :: "MoneyBR option \<Rightarrow> anyval" where
  "moneyAny m = (case m of None \<Rightarrow> VNull | Some x \<Rightarrow> VObj x)"

text \<open>
  The record that the first loop of \<open>normalizeBase\<close> pushes for the row \<open>r\<close>. The
  type \<open>ContabilRow\<close> has no field \<open>classificacao\<close>, so the alternative spelling read by
  the source is absent.
\<close>

definition normalizedOf :: "normCtx \<Rightarrow> ContabilRow \<Rightarrow> NormalizedBaseRow" where
  "normalizedOf ctx r =
    (let cls = normalizeClassification (optStr (cr_classification r));
         d = trim (optStr (cr_description r));
         desc = (if d = [] then None else Some d)
     in \<lparr>period = trim (ctx_period ctx),
         year = ctx_year ctx,
         classification = (if cls = [] then None else Some cls),
         code = cr_code r,
         description = desc,
         group = (case cr_group r of Some g \<Rightarrow> Some g | None \<Rightarrow> Some (groupFromClassification cls)),
         saldoAtual = moneyAny (cr_saldoAtual r),
         saldoAnterior = moneyAny (cr_saldoAnterior r),
         debito = moneyAny (cr_debito r),
         credito = moneyAny (cr_credito r),
         rawLine = Some (cr_rawLine r)\<rparr>)"

text \<open>The body of the second loop: the record \<open>rr\<close> after the assignment to its group,
  if any.\<close>

definition fallbackGroup :: "NormalizedBaseRow \<Rightarrow> NormalizedBaseRow" where
  "fallbackGroup rr =
    (if group rr \<noteq> None \<and> group rr \<noteq> Some GrpOUTROS then rr
     else
       let d = normalizeText (optStr (description rr)) in
       if d = ''ATIVO'' \<or> d = ''TOTAL ATIVO'' \<or> d = ''ATIVO TOTAL'' then rr\<lparr>group := Some GrpATIVO\<rparr>
       else if d = ''PASSIVO'' \<or> d = ''TOTAL PASSIVO'' \<or> d = ''PASSIVO TOTAL''
       then rr\<lparr>group := Some GrpPASSIVO\<rparr>
       else if d = ''DRE'' \<or> includesStr d ''RESULTADO'' \<or> includesStr d ''DEMONSTRACAO''
       then rr\<lparr>group := Some GrpDRE\<rparr>
       else rr)"

text \<open>
  The rows are objects and the second loop assigns to a field, so the function is
  modelled on a store: a list of objects, the address of an object being its index. The
  arrays \<open>rows\<close> and \<open>out\<close> hold addresses. A new object is allocated at the end of the
  store. A read of an address that holds no row of the expected type has no value in the
  model (the types of the source exclude it).
\<close>

datatype obj = RawObj ContabilRow | NormObj NormalizedBaseRow

type_synonym store = "obj list"

definition rawAt :: "store \<Rightarrow> nat \<Rightarrow> ContabilRow option" where
  "rawAt h a = (if a < length h then (case h ! a of RawObj r \<Rightarrow> Some r | NormObj n \<Rightarrow> None) else None)"

definition normAt :: "store \<Rightarrow> nat \<Rightarrow> NormalizedBaseRow option" where
  "normAt h a = (if a < length h then (case h ! a of NormObj n \<Rightarrow> Some n | RawObj r \<Rightarrow> None) else None)"

fun pushRows :: "normCtx \<Rightarrow> nat list \<Rightarrow> store \<Rightarrow> nat list \<Rightarrow> (store \<times> nat list) option" where
  "pushRows ctx [] h out = Some (h, out)"
| "pushRows ctx (a # rows) h out =
     (case rawAt h a of
        None \<Rightarrow> None
      | Some r \<Rightarrow> pushRows ctx rows (h @ [NormObj (normalizedOf ctx r)]) (out @ [length h]))"

fun fixGroups :: "nat list \<Rightarrow> store \<Rightarrow> store option" where
  "fixGroups [] h = Some h"
| "fixGroups (a # out) h =
     (case normAt h a of
        None \<Rightarrow> None
      | Some rr \<Rightarrow> fixGroups out (h[a := NormObj (fallbackGroup rr)]))"

definition normalizeBase :: "store \<Rightarrow> nat list \<Rightarrow> normCtx \<Rightarrow> (store \<times> nat list) option" where
  "normalizeBase h rows ctx =
    (case pushRows ctx rows h [] of
       None \<Rightarrow> None
     | Some (h1, out) \<Rightarrow>
         (case fixGroups out h1 of None \<Rightarrow> None | Some h2 \<Rightarrow> Some (h2, out)))"

section \<open>Ledger line parser\<close>

































section \<open>Sorting\<close>

text \<open>
  \<open>xs.sort(cmp)\<close>: the sort of an array is stable, and for a comparator that is a
  consistent order the result is the stable sorted arrangement, which insertion from the
  right computes. \<open>x\<close> goes before the first \<open>y\<close> with \<open>cmp x y \<le> 0\<close>.
\<close>

fun insertBy :: "('a \<Rightarrow> 'a \<Rightarrow> real) \<Rightarrow> 'a \<Rightarrow> 'a list \<Rightarrow> 'a list" where
  "insertBy cmp x [] = [x]"
| "insertBy cmp x (y # ys) = (if cmp x y \<le> 0 then x # y # ys else y # insertBy cmp x ys)"

definition jsSort :: "('a \<Rightarrow> 'a \<Rightarrow> real) \<Rightarrow> 'a list \<Rightarrow> 'a list" where
  "jsSort cmp xs = foldr (insertBy cmp) xs []"

section \<open>Period labels\<close>

datatype pkind = KindQ | KindM | KindY | KindRaw

text \<open>The result \<open>{kind, y, n}\<close> of \<open>parsePeriod\<close>.\<close>

record parsedPeriod =
  p_kind :: pkind
  p_y :: nat
  p_n :: nat

text \<open>
  \<open>/T\s*(\d)\s*\/\s*(\d{4})/i\<close> is searched anywhere in the label: \<open>tqAt\<close> matches it at
  the start of a text and \<open>tqSearch\<close> takes the leftmost match. White space, digits and the
  slash exclude one another, so each part matches in one way.
\<close>

definition tqAt :: "string \<Rightarrow> (char \<times> string) option" where
  "tqAt s =
    (case s of
       [] \<Rightarrow> None
     | t # r0 \<Rightarrow>
         if t \<notin> set ''Tt'' then None
         else case dropWhile isSpace r0 of
           [] \<Rightarrow> None
         | d # r1 \<Rightarrow>
             if \<not> isDigit d then None
             else case dropWhile isSpace r1 of
               [] \<Rightarrow> None
             | sl # r2 \<Rightarrow>
                 if sl \<noteq> CHR ''/'' then None
                 else
                   let r3 = dropWhile isSpace r2 in
                   if length r3 \<ge> 4 \<and> list_all isDigit (take 4 r3)
                   then Some (d, take 4 r3) else None)"

fun tqSearch :: "string \<Rightarrow> (char \<times> string) option" where
  "tqSearch [] = None"
| "tqSearch (c # cs) = (case tqAt (c # cs) of Some m \<Rightarrow> Some m | None \<Rightarrow> tqSearch cs)"

text \<open>\<open>/^(\d{4})-(\d{2})$/\<close> and \<open>/^(\d{4})$/\<close>\<close>

definition ymMatch :: "string \<Rightarrow> (string \<times> string) option" where
  "ymMatch s =
    (if length s = 7 \<and> list_all isDigit (take 4 s) \<and> s ! 4 = CHR ''-'' \<and> list_all isDigit (drop 5 s)
     then Some (take 4 s, drop 5 s) else None)"

definition yyMatch :: "string \<Rightarrow> string option" where
  "yyMatch s = (if length s = 4 \<and> list_all isDigit s then Some s else None)"

definition parsePeriod :: "string \<Rightarrow> parsedPeriod" where
  "parsePeriod p =
    (let s = trim p in
     case tqSearch s of
       Some (d, yyyy) \<Rightarrow> \<lparr>p_kind = KindQ, p_y = decValue yyyy, p_n = decValue [d]\<rparr>
     | None \<Rightarrow>
       (case ymMatch s of
          Some (yyyy, mm) \<Rightarrow> \<lparr>p_kind = KindM, p_y = decValue yyyy, p_n = decValue mm\<rparr>
        | None \<Rightarrow>
          (case yyMatch s of
             Some yyyy \<Rightarrow> \<lparr>p_kind = KindY, p_y = decValue yyyy, p_n = 0\<rparr>
           | None \<Rightarrow> \<lparr>p_kind = KindRaw, p_y = 0, p_n = 0\<rparr>)))"

definition orderKind :: "pkind \<Rightarrow> nat" where
  "orderKind k = (case k of KindY \<Rightarrow> 1 | KindQ \<Rightarrow> 2 | KindM \<Rightarrow> 3 | KindRaw \<Rightarrow> 9)"

text \<open>
  The comparator of \<open>sortPeriodLabels\<close> on the pairs \<open>{raw, p}\<close>. \<open>localeCompare\<close> is the
  collation of the host, a parameter \<open>lc\<close> of the model.
\<close>

definition periodCmp :: "(string \<Rightarrow> string \<Rightarrow> real) \<Rightarrow> string \<times> parsedPeriod \<Rightarrow> string \<times> parsedPeriod \<Rightarrow> real" where
  "periodCmp lc a b =
    (let ak = orderKind (p_kind (snd a)); bk = orderKind (p_kind (snd b)) in
     if ak \<noteq> bk then real ak - real bk
     else if p_y (snd a) \<noteq> p_y (snd b) then real (p_y (snd a)) - real (p_y (snd b))
     else if p_n (snd a) \<noteq> p_n (snd b) then real (p_n (snd a)) - real (p_n (snd b))
     else lc (fst a) (fst b))"

definition sortPeriodLabels :: "(string \<Rightarrow> string \<Rightarrow> real) \<Rightarrow> string list \<Rightarrow> string list" where
  "sortPeriodLabels lc labels =
    (let parsed = map (\<lambda>raw. (raw, parsePeriod raw)) labels;
         hasAny = list_ex (\<lambda>x. p_kind (snd x) \<noteq> KindRaw) parsed
     in if \<not> hasAny then labels
        else map fst (jsSort (periodCmp lc) parsed))"

text \<open>
  For the statements about the order: the key (rank of the kind, year, index) of a label
  and its lexicographic order, and a collation by code units as an example of \<open>lc\<close>.
\<close>

definition periodKey :: "string \<Rightarrow> nat \<times> nat \<times> nat" where
  "periodKey l = (let p = parsePeriod l in (orderKind (p_kind p), p_y p, p_n p))"

definition keyLess :: "nat \<times> nat \<times> nat \<Rightarrow> nat \<times> nat \<times> nat \<Rightarrow> bool" where
  "keyLess k1 k2 \<longleftrightarrow>
     fst k1 < fst k2 \<or> (fst k1 = fst k2 \<and>
       (fst (snd k1) < fst (snd k2) \<or> (fst (snd k1) = fst (snd k2) \<and> snd (snd k1) < snd (snd k2))))"

fun codeUnitCompare :: "string \<Rightarrow> string \<Rightarrow> real" where
  "codeUnitCompare [] [] = 0"
| "codeUnitCompare [] (y # ys) = - 1"
| "codeUnitCompare (x # xs) [] = 1"
| "codeUnitCompare (x # xs) (y # ys) =
     (if x = y then codeUnitCompare xs ys
      else if (of_char x :: nat) < of_char y then - 1 else 1)"

section \<open>Selection of the total rows\<close>
















section \<open>Outlier filter of the rankings\<close>

text \<open>\<open>getSaldo\<close> inside \<open>filterOutliersForRankings\<close>.\<close>

definition getSaldo :: "NormalizedBaseRow \<Rightarrow> real" where
  "getSaldo r = finiteOr0 (NumberAny (saldoAtual r))"

definition filterOutliersForRankings :: "NormalizedBaseRow list \<Rightarrow> jsnum \<Rightarrow> NormalizedBaseRow list" where
  "filterOutliersForRankings rows ativoTotal =
    (case ativoTotal of
       Fin a \<Rightarrow>
         if a = 0 \<or> a \<le> 0 then filter (\<lambda>r. \<bar>getSaldo r\<bar> < 10 ^ 12) rows
         else
           let hardCap = a * 1.05 in
           filter (\<lambda>r.
             let v = \<bar>getSaldo r\<bar> in
             if v \<le> 0 then False
             else if v > hardCap then False
             else if a < 200000000 \<and> v \<ge> 1000000000 then False
             else True) rows
     | _ \<Rightarrow> filter (\<lambda>r. \<bar>getSaldo r\<bar> < 10 ^ 12) rows)"

section \<open>Rankings and variations of the analysis engine\<close>

text \<open>An entry of \<open>topAtivo\<close> and \<open>topPassivo\<close>.\<close>

record rankEntry =
  re_code :: "string option"
  re_description :: "string option"
  re_value :: real
  re_period :: string

text \<open>
  The body of the loop over \<open>safeRows\<close> that fills the two ranking lists for the period
  \<open>p\<close>; the state is the pair \<open>(topAtivo, topPassivo)\<close>.
\<close>

definition rankStep ::
  "string \<Rightarrow> rankEntry list \<times> rankEntry list \<Rightarrow> NormalizedBaseRow \<Rightarrow> rankEntry list \<times> rankEntry list" where
  "rankStep p acc r =
    (let v = safeNumber (saldoAtual r) in
     if v = 0 then acc
     else
       let desc = toUpperCase (optStr (description r)) in
       if includesStr desc ''TOTAL'' then acc
       else
         let grp = groupFromClassification_ae (optStr (classification r));
             entry = \<lparr>re_code = code r, re_description = description r,
                      re_value = brRound v, re_period = p\<rparr>
         in if grp = GrpATIVO then (fst acc @ [entry], snd acc)
            else if grp = GrpPASSIVO then (fst acc, snd acc @ [entry])
            else acc)"

text \<open>One round of the loop over \<open>perFile\<close>: the rows of the period, filtered with the
  assets total of the period.\<close>

definition rankPeriod ::
  "NormalizedBaseRow list \<Rightarrow> rankEntry list \<times> rankEntry list \<Rightarrow> string \<times> real
     \<Rightarrow> rankEntry list \<times> rankEntry list" where
  "rankPeriod base acc f =
    (let rowsPeriod = filter (\<lambda>r. period r = fst f) base;
         safeRows = filterOutliersForRankings rowsPeriod (Fin (snd f))
     in foldl (rankStep (fst f)) acc safeRows)"

text \<open>The whole loop; \<open>perFile\<close> lists each period with its assets total.\<close>

definition rankings :: "NormalizedBaseRow list \<Rightarrow> (string \<times> real) list \<Rightarrow> rankEntry list \<times> rankEntry list" where
  "rankings base perFile = foldl (rankPeriod base) ([], []) perFile"

text \<open>\<open>mkKey\<close>\<close>

definition mkKey :: "string option \<Rightarrow> string option \<Rightarrow> string" where
  "mkKey cd desc =
    (let c = trim (optStr cd); d = toUpperCase (trim (optStr desc))
     in if c \<noteq> [] then ''C:'' @ c @ ''|D:'' @ d else ''D:'' @ d)"

text \<open>
  The map of the variations: keys in insertion order, each with the code, the
  description and the values by period. \<open>mapSet\<close> is \<open>Map.prototype.set\<close>.
\<close>

record varEntry =
  ve_code :: "string option"
  ve_description :: "string option"
  ve_values :: "string \<rightharpoonup> real"

fun mapSet :: "('k \<times> 'v) list \<Rightarrow> 'k \<Rightarrow> 'v \<Rightarrow> ('k \<times> 'v) list" where
  "mapSet [] k v = [(k, v)]"
| "mapSet ((k', v') # m) k v = (if k' = k then (k, v) # m else (k', v') # mapSet m k v)"

definition varStep :: "string \<Rightarrow> (string \<times> varEntry) list \<Rightarrow> NormalizedBaseRow \<Rightarrow> (string \<times> varEntry) list" where
  "varStep p m r =
    (let v = safeNumber (saldoAtual r);
         key = mkKey (code r) (description r);
         prev = (case map_of m key of
                   Some e \<Rightarrow> e
                 | None \<Rightarrow> \<lparr>ve_code = code r, ve_description = description r, ve_values = Map.empty\<rparr>)
     in mapSet m key (prev\<lparr>ve_values := (ve_values prev)(p \<mapsto> brRound v)\<rparr>))"

definition varPeriod ::
  "NormalizedBaseRow list \<Rightarrow> (string \<times> varEntry) list \<Rightarrow> string \<times> real \<Rightarrow> (string \<times> varEntry) list" where
  "varPeriod base m f =
    (let rowsPeriod = filter (\<lambda>r. period r = fst f) base;
         safeRows = filterOutliersForRankings rowsPeriod (Fin (snd f))
     in foldl (varStep (fst f)) m safeRows)"

definition variations :: "NormalizedBaseRow list \<Rightarrow> (string \<times> real) list \<Rightarrow> (string \<times> varEntry) list" where
  "variations base perFile = foldl (varPeriod base) [] perFile"

section \<open>Income-statement KPIs\<close>

text \<open>The lists of \<open>RX\<close> that the computation uses, and \<open>PLAN_PREFIX\<close>.\<close>

definition RX_receitaLiquida :: "string list" where
  "RX_receitaLiquida =
    [''RECEITA LIQUIDA'', ''RECEITA LIQ'', ''RECEITAS LIQUIDAS'',
     ''RECEITA OPERACIONAL LIQUIDA'', ''ROL'']"

definition RX_receitaBruta :: "string list" where
  "RX_receitaBruta =
    [''RECEITA BRUTA'', ''RECEITA OPERACIONAL BRUTA'', ''VENDAS BRUTAS'',
     ''FATURAMENTO BRUTO'']"

definition RX_deducoes :: "string list" where
  "RX_deducoes =
    [''DEDUCOES'', ''DEDUCAO'', ''DEVOLUCOES'',
     ''ABATIMENTOS'', ''CANCELAMENTOS'', ''ICMS'',
     ''ISS'', ''PIS'', ''COFINS'']"

definition RX_cmvCpv :: "string list" where
  "RX_cmvCpv =
    [''CMV'', ''CPV'', ''CUSTO'',
     ''CUSTOS'', ''CUSTO DAS MERCADORIAS'', ''CUSTO DOS PRODUTOS'',
     ''CUSTO DOS SERVICOS'', ''CUSTO DOS SERVICOS PRESTADOS'', ''CSP'']"

definition RX_despesasAdmin :: "string list" where
  "RX_despesasAdmin =
    [''DESPESAS ADMIN'', ''DESPESAS ADMINISTRATIVAS'', ''DESPESA ADMIN'',
     ''ADMINISTRATIVAS'']"

definition RX_despesasComerciais :: "string list" where
  "RX_despesasComerciais =
    [''DESPESAS COMERC'', ''DESPESAS COMERCIAIS'', ''DESPESAS DE VENDAS'',
     ''MARKETING'', ''PROPAGANDA'', ''PUBLICIDADE'']"

definition RX_outrasDespesas :: "string list" where
  "RX_outrasDespesas =
    [''OUTRAS DESPESAS'', ''DESPESAS GERAIS'', ''DESPESAS OPERACIONAIS'',
     ''DESPESAS FINANCEIRAS'', ''CUSTOS FINANCEIROS'', ''DESPESAS'']"

definition PLAN_PREFIX_receita_bruta :: "string list" where
  "PLAN_PREFIX_receita_bruta = [''3.1'']"

definition PLAN_PREFIX_deducoes :: "string list" where
  "PLAN_PREFIX_deducoes = [''3.2'']"

definition PLAN_PREFIX_cmv_cpv :: "string list" where
  "PLAN_PREFIX_cmv_cpv = [''3.3'', ''3.4'', ''3.5'']"

definition PLAN_PREFIX_despesas_admin :: "string list" where
  "PLAN_PREFIX_despesas_admin = [''3.7'', ''3.8'']"

definition matchAny :: "string \<Rightarrow> string list \<Rightarrow> bool" where
  "matchAny desc patterns = list_ex (\<lambda>p. includesStr desc p) patterns"

datatype preferCol = PreferCredito | PreferDebito

definition dreValue :: "NormalizedBaseRow \<Rightarrow> preferCol \<Rightarrow> real" where
  "dreValue r pref =
    (let cred = numFromAny (credito r); deb = numFromAny (debito r) in
     if pref = PreferCredito \<and> \<bar>cred\<bar> > 1 / 10 ^ 9 then cred
     else if pref = PreferDebito \<and> \<bar>deb\<bar> > 1 / 10 ^ 9 then deb
     else
       let sa = numFromAny (saldoAtual r) in
       if \<bar>sa\<bar> > 1 / 10 ^ 9 then sa
       else
         let sb = numFromAny (saldoAnterior r) in
         if \<bar>sb\<bar> > 1 / 10 ^ 9 then sb
         else if \<bar>deb\<bar> > 1 / 10 ^ 9 \<or> \<bar>cred\<bar> > 1 / 10 ^ 9 then deb - cred
         else 0)"

text \<open>\<open>bucketKey\<close>: the match of \<open>/^([123]\.\d{1,3})/\<close> on the normalized classification.\<close>

definition bucketKey :: "string option \<Rightarrow> string option" where
  "bucketKey cls =
    (let c = normalizeClassification_kpi (optStr cls) in
     if c = [] then None
     else case c of
       a # b # rest \<Rightarrow>
         (let ds = takeWhile isDigit (take 3 rest)
          in if isRoot a \<and> b = CHR ''.'' \<and> ds \<noteq> [] then Some (a # b # ds) else None)
     | _ \<Rightarrow> None)"

definition isDreRelevantRow :: "NormalizedBaseRow \<Rightarrow> bool" where
  "isDreRelevantRow r =
    (let grp = group r; cls = normalizeClassification_kpi (optStr (classification r)) in
     if grp = Some GrpDRE then True
     else if cls = ''3'' \<or> startsWith cls ''3.'' then True
     else False)"

text \<open>The value \<open>v\<close> that \<open>computeBuckets\<close> and \<open>sumByBucketAbs\<close> take from a row.\<close>

definition rowValue :: "NormalizedBaseRow \<Rightarrow> real" where
  "rowValue r =
    (let sa = numFromAny (saldoAtual r); sb = numFromAny (saldoAnterior r);
         d = numFromAny (debito r); c = numFromAny (credito r)
     in if \<bar>sa\<bar> > 1 / 10 ^ 9 then sa else if \<bar>sb\<bar> > 1 / 10 ^ 9 then sb else d - c)"

record bucket =
  b_key :: string
  b_total :: real
  b_lines :: nat

definition bucketStep :: "(string \<times> real \<times> nat) list \<Rightarrow> NormalizedBaseRow \<Rightarrow> (string \<times> real \<times> nat) list" where
  "bucketStep m r =
    (case bucketKey (classification r) of
       None \<Rightarrow> m
     | Some k \<Rightarrow>
         let prev = (case map_of m k of Some q \<Rightarrow> q | None \<Rightarrow> (0, 0))
         in mapSet m k (fst prev + rowValue r, snd prev + 1))"

definition computeBuckets :: "NormalizedBaseRow list \<Rightarrow> bucket list" where
  "computeBuckets rows =
    jsSort (\<lambda>a b. \<bar>b_total b\<bar> - \<bar>b_total a\<bar>)
      (map (\<lambda>e. \<lparr>b_key = fst e, b_total = brRound (fst (snd e)), b_lines = snd (snd e)\<rparr>)
        (foldl bucketStep [] rows))"

definition sumByMatchAbs :: "NormalizedBaseRow list \<Rightarrow> string list \<Rightarrow> preferCol \<Rightarrow> real" where
  "sumByMatchAbs rows patterns pref =
    brRound (foldl (\<lambda>s r.
      let desc = normalizeText (optStr (description r))
      in if desc \<noteq> [] \<and> matchAny desc patterns then s + \<bar>dreValue r pref\<bar> else s) 0 rows)"

definition sumByBucketAbs :: "NormalizedBaseRow list \<Rightarrow> string list \<Rightarrow> real" where
  "sumByBucketAbs rows keys =
    brRound (foldl (\<lambda>s r.
      case bucketKey (classification r) of
        Some k \<Rightarrow> if k \<in> set keys then s + \<bar>rowValue r\<bar> else s
      | None \<Rightarrow> s) 0 rows)"

definition sumByClassificationPrefixAbs :: "NormalizedBaseRow list \<Rightarrow> string list \<Rightarrow> preferCol \<Rightarrow> real" where
  "sumByClassificationPrefixAbs rows pfxs pref =
    brRound (foldl (\<lambda>s r.
      let raw = trim (optStr (classification r));
          cls = normalizeClassification_kpi (optStr (classification r));
          hit = list_ex (\<lambda>p.
                  let pp = trim p in
                  if pp = [] then False
                  else if \<not> (pp = ''3'' \<or> startsWith pp ''3.'') then False
                  else startsWith raw pp \<or> startsWith cls pp) pfxs
      in if hit then s + \<bar>dreValue r pref\<bar> else s) 0 rows)"

definition pct :: "real \<Rightarrow> real \<Rightarrow> real option" where
  "pct num den = (if den = 0 then None else Some (brRound ((num / den) * 100)))"

text \<open>The figures of one period as the callback computes them, before the gate.\<close>

record dreFigures =
  f_receita_liquida :: real
  f_receita_bruta :: real
  f_deducoes :: real
  f_cmv_cpv :: real
  f_despesas_admin :: real
  f_despesas_comerciais :: real
  f_outras_despesas :: real
  f_lucro_bruto :: "real option"
  f_resultado_operacional :: "real option"

definition figuresOf :: "NormalizedBaseRow list \<Rightarrow> dreFigures" where
  "figuresOf rows =
    (let rb0 = sumByClassificationPrefixAbs rows PLAN_PREFIX_receita_bruta PreferCredito;
         de0 = sumByClassificationPrefixAbs rows PLAN_PREFIX_deducoes PreferDebito;
         cm0 = sumByClassificationPrefixAbs rows PLAN_PREFIX_cmv_cpv PreferDebito;
         ad0 = sumByClassificationPrefixAbs rows PLAN_PREFIX_despesas_admin PreferDebito;
         rl0 = sumByMatchAbs rows RX_receitaLiquida PreferCredito;
         rb1 = (if rb0 = 0 then sumByMatchAbs rows RX_receitaBruta PreferCredito else rb0);
         de1 = (if de0 = 0 then sumByMatchAbs rows RX_deducoes PreferDebito else de0);
         cm1 = (if cm0 = 0 then sumByMatchAbs rows RX_cmvCpv PreferDebito else cm0);
         ad1 = (if ad0 = 0 then sumByMatchAbs rows RX_despesasAdmin PreferDebito else ad0);
         rb2 = (if rb1 = 0 then sumByBucketAbs rows [''3.1''] else rb1);
         de2 = (if de1 = 0 then sumByBucketAbs rows [''3.2''] else de1);
         cm2 = (if cm1 = 0 then sumByBucketAbs rows [''3.3'', ''3.4'', ''3.5''] else cm1);
         ad2 = (if ad1 = 0 then sumByBucketAbs rows [''3.7'', ''3.8''] else ad1);
         rl1 = (if rl0 = 0 \<and> rb2 \<noteq> 0 then brRound (rb2 - de2) else rl0);
         dc = sumByMatchAbs rows RX_despesasComerciais PreferDebito;
         od = sumByMatchAbs rows RX_outrasDespesas PreferDebito;
         lb = (if rl1 \<noteq> 0 then Some (brRound (rl1 - cm2)) else None);
         ro = (case lb of Some l \<Rightarrow> Some (brRound (l - ad2 - dc - od)) | None \<Rightarrow> None)
     in \<lparr>f_receita_liquida = rl1, f_receita_bruta = rb2, f_deducoes = de2, f_cmv_cpv = cm2,
         f_despesas_admin = ad2, f_despesas_comerciais = dc, f_outras_despesas = od,
         f_lucro_bruto = lb, f_resultado_operacional = ro\<rparr>)"

text \<open>The element of \<open>byPeriod\<close>; its period and year have the prefix \<open>k_\<close>.\<close>

record TccKpiPeriod =
  k_period :: string
  k_year :: "real option"
  receita_liquida :: real
  receita_bruta :: real
  deducoes :: real
  cmv_cpv :: real
  despesas_admin :: real
  despesas_comerciais :: real
  outras_despesas :: real
  lucro_bruto :: "real option"
  resultado_operacional :: "real option"
  lucro_liquido :: "real option"
  margem_bruta_pct :: "real option"
  margem_liquida_pct :: "real option"
  buckets :: "bucket list"

text \<open>The notes of the KPI computation: the note of insufficient validation for a period
  and the note that no income-statement row was found.\<close>

datatype kpiNote = InsufficientValidation string | NoDreRows

text \<open>
  The callback of the map over the periods: the element it returns and the notes it
  pushes; \<open>confident\<close> is its local constant. \<open>firstYear\<close> is \<open>rows.find((x) => typeof x.year === "number")?.year ?? null\<close>.
\<close>

definition firstYear :: "NormalizedBaseRow list \<Rightarrow> real option" where
  "firstYear rows = (case filter (\<lambda>x. year x \<noteq> None) rows of [] \<Rightarrow> None | x # _ \<Rightarrow> year x)"

definition confident :: "dreFigures \<Rightarrow> bool" where
  "confident f \<longleftrightarrow>
     (f_receita_bruta f > 0 \<or> f_receita_liquida f > 0) \<and>
     (f_cmv_cpv f > 0 \<or> f_despesas_admin f > 0 \<or> f_despesas_comerciais f > 0 \<or>
      f_outras_despesas f > 0)"

definition kpiOfPeriod :: "string \<Rightarrow> NormalizedBaseRow list \<Rightarrow> TccKpiPeriod \<times> kpiNote list" where
  "kpiOfPeriod p rows =
    (let f = figuresOf rows;
         pushed = (if \<not> confident f then [InsufficientValidation p] else []);
         safe = confident f
     in (\<lparr>k_period = p,
          k_year = firstYear rows,
          receita_liquida = (if safe then f_receita_liquida f else 0),
          receita_bruta = (if safe then f_receita_bruta f else 0),
          deducoes = (if safe then f_deducoes f else 0),
          cmv_cpv = (if safe then f_cmv_cpv f else 0),
          despesas_admin = (if safe then f_despesas_admin f else 0),
          despesas_comerciais = (if safe then f_despesas_comerciais f else 0),
          outras_despesas = (if safe then f_outras_despesas f else 0),
          lucro_bruto = (if safe then f_lucro_bruto f else None),
          resultado_operacional = (if safe then f_resultado_operacional f else None),
          lucro_liquido = (if safe then f_resultado_operacional f else None),
          margem_bruta_pct =
            (if safe then (case f_lucro_bruto f of Some l \<Rightarrow> pct l (f_receita_liquida f) | None \<Rightarrow> None)
             else None),
          margem_liquida_pct =
            (if safe
             then (case f_resultado_operacional f of Some l \<Rightarrow> pct l (f_receita_liquida f) | None \<Rightarrow> None)
             else None),
          buckets = computeBuckets rows\<rparr>, pushed))"

text \<open>The map from period to rows, in insertion order.\<close>

definition groupStep :: "(string \<times> NormalizedBaseRow list) list \<Rightarrow> NormalizedBaseRow \<Rightarrow> (string \<times> NormalizedBaseRow list) list" where
  "groupStep m r =
    (if period r = [] \<or> \<not> isDreRelevantRow r then m
     else
       let arr = (case map_of m (period r) of Some a \<Rightarrow> a | None \<Rightarrow> [])
       in mapSet m (period r) (arr @ [r]))"

definition byPeriodMap :: "NormalizedBaseRow list \<Rightarrow> (string \<times> NormalizedBaseRow list) list" where
  "byPeriodMap base = foldl groupStep [] base"

definition computeTccKpisFromBase :: "NormalizedBaseRow list \<Rightarrow> TccKpiPeriod list \<times> kpiNote list" where
  "computeTccKpisFromBase base =
    (let results = map (\<lambda>e. kpiOfPeriod (fst e) (snd e)) (byPeriodMap base);
         byPeriod = map fst results;
         notes = concat (map snd results)
     in (byPeriod, if byPeriod = [] then notes @ [NoDreRows] else notes))"

section \<open>Auxiliary definitions and example inputs\<close>


definition exRow :: "string \<Rightarrow> string \<Rightarrow> string \<Rightarrow> anyval \<Rightarrow> NormalizedBaseRow" where
  "exRow p cls desc saldo =
    \<lparr>period = p, year = None, classification = Some cls, code = None,
     description = Some desc, group = None, saldoAtual = saldo,
     saldoAnterior = VNull, debito = VNull, credito = VNull, rawLine = None\<rparr>"

text \<open>For the statement about pairs in the rankings: whether a column holds a pair, and
  a row with its pair, if it has one, replaced by another.\<close>

definition isObj :: "anyval \<Rightarrow> bool" where
  "isObj v \<longleftrightarrow> (case v of VObj m \<Rightarrow> True | _ \<Rightarrow> False)"

definition replaceObj :: "MoneyBR \<Rightarrow> NormalizedBaseRow \<Rightarrow> NormalizedBaseRow" where
  "replaceObj m r = (if isObj (saldoAtual r) then r\<lparr>saldoAtual := VObj m\<rparr> else r)"

definition objRow :: NormalizedBaseRow where
  "objRow = exRow ''2024'' ''1.2'' ''Bancos'' (VObj \<lparr>m_raw = ''5.000,00'', m_value = Fin 5000\<rparr>)"

text \<open>The key of a pair \<open>{raw, p}\<close>.\<close>

definition pairKey :: "string \<times> parsedPeriod \<Rightarrow> nat \<times> nat \<times> nat" where
  "pairKey x = (orderKind (p_kind (snd x)), p_y (snd x), p_n (snd x))"

text \<open>What the second loop of \<open>normalizeBase\<close> does to one object of the store.\<close>

definition fixObj :: "obj \<Rightarrow> obj" where
  "fixObj x = (case x of NormObj rr \<Rightarrow> NormObj (fallbackGroup rr) | RawObj r \<Rightarrow> RawObj r)"

definition exRaw1 :: ContabilRow where
  "exRaw1 = \<lparr>cr_rawLine = ''11 1.1.01 Caixa 1.000,00 900,00 200,00 100,00'', cr_group = Some GrpOUTROS,
     cr_code = Some ''11'', cr_description = Some ''Caixa'', cr_classification = Some ''1.1.01'',
     cr_saldoAtual = Some \<lparr>m_raw = ''1.000,00'', m_value = Fin 1000\<rparr>,
     cr_saldoAnterior = Some \<lparr>m_raw = ''900,00'', m_value = Fin 900\<rparr>,
     cr_debito = Some \<lparr>m_raw = ''200,00'', m_value = Fin 200\<rparr>,
     cr_credito = Some \<lparr>m_raw = ''100,00'', m_value = Fin 100\<rparr>\<rparr>"

definition exCtx :: normCtx where
  "exCtx = \<lparr>ctx_period = '' 2024 '', ctx_year = Some 2024\<rparr>"

definition dreRow :: NormalizedBaseRow where
  "dreRow = \<lparr>period = ''2024'', year = Some 2024, classification = Some ''3.1'', code = None,
     description = None, group = Some GrpDRE, saldoAtual = VNull,
     saldoAnterior = VNull, debito = VNull, credito = VNum (Fin 1000), rawLine = None\<rparr>"




section \<open>Verified properties\<close>

subsection \<open>Monetary token parser\<close>

lemma isSpace_simps [simp]:
  "\<not> isSpace CHR ''(''" "\<not> isSpace CHR '')''" "\<not> isSpace CHR ''-''"
  "\<not> isSpace CHR ''.''" "\<not> isSpace CHR '',''" "isSpace CHR '' ''"
  by (simp_all add: isSpace_def)

lemma isDigit_not_space: "isDigit c \<Longrightarrow> \<not> isSpace c"
  by (auto simp: isDigit_def isSpace_def)



lemma trim_id:
  "s \<noteq> [] \<Longrightarrow> \<not> isSpace (hd s) \<Longrightarrow> \<not> isSpace (last s) \<Longrightarrow> trim s = s"
proof -
  assume a: "s \<noteq> []" "\<not> isSpace (hd s)" "\<not> isSpace (last s)"
  then have 1: "dropWhile isSpace s = s" by (cases s) auto
  from a have "rev s \<noteq> []" "\<not> isSpace (hd (rev s))" by (simp_all add: hd_rev)
  then have 2: "dropWhile isSpace (rev s) = rev s" by (cases "rev s") auto
  show ?thesis by (simp add: trim_def 1 2)
qed







lemma radixValue_snoc: "radixValue b (ds @ [c]) = b * radixValue b ds + digitVal c"
  by (simp add: radixValue_def)











subsection \<open>Magnitude correction\<close>

text \<open>
  C2, as stated, at the lower end of the band: a candidate of exactly 10,000,000 lies in
  [10,000,000, 20,000,000) but is returned unchanged, not corrected to 0, by the guard
  \<open>fixed > 0\<close>; and a value below the band with magnitude under 1e-9 is replaced by 0,
  not returned unchanged.
\<close>

theorem applyGluedFix_ativo_band_counterexample:
  "(10000000 :: real) \<le> \<bar>10000000\<bar> \<and> \<bar>10000000 :: real\<bar> < 20000000 \<and>
   applyGluedFix ATIVO (Fin 10000000) None = 10000000 \<and>
   applyGluedFix ATIVO (Fin 10000000) None \<noteq> \<bar>10000000\<bar> - 10000000 \<and>
   applyGluedFixFromText ATIVO (Fin 10000000) None = 10000000 \<and>
   applyGluedFixFromText ATIVO (Fin 10000000) None \<noteq> \<bar>10000000\<bar> - 10000000 \<and>
   \<not> (10000000 :: real) \<le> \<bar>1 / 10 ^ 10\<bar> \<and>
   applyGluedFix ATIVO (Fin (1 / 10 ^ 10)) None \<noteq> 1 / 10 ^ 10 \<and>
   applyGluedFixFromText ATIVO (Fin (1 / 10 ^ 10)) None \<noteq> 1 / 10 ^ 10"
  by (simp add: applyGluedFix_def applyGluedFixFromText_def Let_def)

text \<open>
  C2, amended: for a finite assets candidate \<open>v\<close> with 10,000,000 < |v| < 20,000,000 both
  corrections return the value of magnitude |v| - 10,000,000 with the sign of \<open>v\<close>; a
  candidate of magnitude below 1e-9 gives 0; every other finite candidate (the end point
  |v| = 10,000,000 included) is returned unchanged.
\<close>

theorem applyGluedFix_ativo_amended:
  "applyGluedFix ATIVO (Fin v) ctx =
     (if 10000000 < \<bar>v\<bar> \<and> \<bar>v\<bar> < 20000000 then sgn v * (\<bar>v\<bar> - 10000000)
      else if \<bar>v\<bar> < 1 / 10 ^ 9 then 0 else v) \<and>
   applyGluedFixFromText ATIVO (Fin v) ctx =
     (if 10000000 < \<bar>v\<bar> \<and> \<bar>v\<bar> < 20000000 then sgn v * (\<bar>v\<bar> - 10000000)
      else if \<bar>v\<bar> < 1 / 10 ^ 9 then 0 else v)"
  by (auto simp: applyGluedFix_def applyGluedFixFromText_def Let_def sgn_real_def)

theorem applyGluedFix_ativo_amended_witness:
  "applyGluedFix ATIVO (Fin 14532100) None = 4532100 \<and>
   applyGluedFixFromText ATIVO (Fin 14532100) None = 4532100 \<and>
   applyGluedFix ATIVO (Fin (- 14532100)) None = - 4532100 \<and>
   applyGluedFix ATIVO (Fin 25000000) None = 25000000"
  using applyGluedFix_ativo_amended [of 14532100 None]
    applyGluedFix_ativo_amended [of "- 14532100" None]
    applyGluedFix_ativo_amended [of 25000000 None]
  by simp

subsection \<open>Liabilities correction and selection\<close>

lemma set_insertBy: "set (insertBy cmp x ys) = insert x (set ys)"
  by (induction ys) auto

lemma set_jsSort: "set (jsSort cmp xs) = set xs"
  by (induction xs) (auto simp: jsSort_def set_insertBy)












subsection \<open>Outlier filter\<close>






subsection \<open>Object balances in the rankings\<close>

lemma NumberAny_obj: "NumberAny (VObj m) = NaN"
  by (simp add: NumberAny_def NumberStr_def trim_def isSpace_def strUnsignedDecimal_def
      isDigit_def Let_def)

lemma safeNumber_obj: "safeNumber (VObj m) = 0"
  by (simp add: safeNumber_def NumberAny_obj finiteOr0_def)

lemma getSaldo_obj: "saldoAtual r = VObj m \<Longrightarrow> getSaldo r = 0"
  by (simp add: getSaldo_def NumberAny_obj finiteOr0_def)

lemma getSaldo_replaceObj: "getSaldo (replaceObj m r) = getSaldo r"
  by (cases "saldoAtual r") (auto simp: replaceObj_def isObj_def getSaldo_def NumberAny_obj)

lemma filterOutliers_map:
  assumes "\<And>r. getSaldo (f r) = getSaldo r"
  shows "filterOutliersForRankings (map f rows) A = map f (filterOutliersForRankings rows A)"
  by (cases A) (auto simp: filterOutliersForRankings_def filter_map comp_def assms Let_def)

lemma rankStep_replaceObj: "rankStep p acc (replaceObj m r) = rankStep p acc r"
  by (cases "saldoAtual r") (auto simp: replaceObj_def isObj_def rankStep_def safeNumber_obj Let_def)

lemma rankStep_obj: "saldoAtual r = VObj m \<Longrightarrow> rankStep p acc r = acc"
  by (simp add: rankStep_def safeNumber_obj)

lemma varStep_replaceObj: "varStep p mp (replaceObj m r) = varStep p mp r"
  by (cases "saldoAtual r")
    (auto simp: replaceObj_def isObj_def varStep_def safeNumber_obj Let_def split: option.splits)

lemma foldl_map_cong:
  assumes "\<And>acc x. g acc (f x) = g acc x"
  shows "foldl g acc (map f xs) = foldl g acc xs"
  by (induction xs arbitrary: acc) (auto simp: assms)

lemma period_replaceObj: "period (replaceObj m r) = period r"
  by (simp add: replaceObj_def)

lemma filter_period_map:
  "filter (\<lambda>r. period r = p) (map (replaceObj m) base) = map (replaceObj m) (filter (\<lambda>r. period r = p) base)"
  by (simp add: filter_map comp_def period_replaceObj)

lemma rankPeriod_replaceObj: "rankPeriod (map (replaceObj m) base) acc f = rankPeriod base acc f"
  by (simp add: rankPeriod_def Let_def filter_period_map filterOutliers_map getSaldo_replaceObj
      foldl_map_cong rankStep_replaceObj)

lemma varPeriod_replaceObj: "varPeriod (map (replaceObj m) base) mp f = varPeriod base mp f"
  by (simp add: varPeriod_def Let_def filter_period_map filterOutliers_map getSaldo_replaceObj
      foldl_map_cong varStep_replaceObj)

lemma rankings_replaceObj: "rankings (map (replaceObj m) base) perFile = rankings base perFile"
proof -
  have "foldl (rankPeriod (map (replaceObj m) base)) acc perFile = foldl (rankPeriod base) acc perFile" for acc
    by (induction perFile arbitrary: acc) (auto simp: rankPeriod_replaceObj)
  then show ?thesis by (simp add: rankings_def)
qed

lemma variations_replaceObj: "variations (map (replaceObj m) base) perFile = variations base perFile"
proof -
  have "foldl (varPeriod (map (replaceObj m) base)) acc perFile = foldl (varPeriod base) acc perFile" for acc
    by (induction perFile arbitrary: acc) (auto simp: varPeriod_replaceObj)
  then show ?thesis by (simp add: variations_def)
qed

lemma foldl_rankStep_filter:
  "foldl (rankStep p) acc (filter (\<lambda>r. \<not> isObj (saldoAtual r)) rows) = foldl (rankStep p) acc rows"
proof (induction rows arbitrary: acc)
  case (Cons r rows)
  then show ?case by (cases "saldoAtual r") (auto simp: isObj_def rankStep_obj)
qed simp

lemma filterOutliers_filter_commute:
  "filterOutliersForRankings (filter P rows) A = filter P (filterOutliersForRankings rows A)"
  by (cases A) (auto simp: filterOutliersForRankings_def Let_def intro!: filter_cong)

lemma rankPeriod_drop_obj:
  "rankPeriod (filter (\<lambda>r. \<not> isObj (saldoAtual r)) base) acc f = rankPeriod base acc f"
proof -
  let ?Q = "\<lambda>r. \<not> isObj (saldoAtual r)"
  let ?P = "\<lambda>r. period r = fst f"
  have 1: "filter ?P (filter ?Q base) = filter ?Q (filter ?P base)"
    by (induction base) auto
  have "rankPeriod (filter ?Q base) acc f
      = foldl (rankStep (fst f)) acc (filterOutliersForRankings (filter ?Q (filter ?P base)) (Fin (snd f)))"
    unfolding rankPeriod_def Let_def 1 ..
  also have "\<dots> = foldl (rankStep (fst f)) acc (filter ?Q (filterOutliersForRankings (filter ?P base) (Fin (snd f))))"
    unfolding filterOutliers_filter_commute ..
  also have "\<dots> = foldl (rankStep (fst f)) acc (filterOutliersForRankings (filter ?P base) (Fin (snd f)))"
    by (rule foldl_rankStep_filter)
  also have "\<dots> = rankPeriod base acc f"
    unfolding rankPeriod_def Let_def ..
  finally show ?thesis .
qed

lemma rankings_drop_obj:
  "rankings (filter (\<lambda>r. \<not> isObj (saldoAtual r)) base) perFile = rankings base perFile"
proof -
  have "foldl (rankPeriod (filter (\<lambda>r. \<not> isObj (saldoAtual r)) base)) acc perFile
      = foldl (rankPeriod base) acc perFile" for acc
    by (induction perFile arbitrary: acc) (auto simp: rankPeriod_drop_obj)
  then show ?thesis by (simp add: rankings_def)
qed

lemma filterOutliers_drops_obj:
  assumes "saldoAtual r = VObj m" "0 < a"
  shows "r \<notin> set (filterOutliersForRankings rows (Fin a))"
  using assms by (auto simp: filterOutliersForRankings_def Let_def getSaldo_obj)

text \<open>
  C10: the plain coercion \<open>Number\<close> turns the pair \<open>{raw, value}\<close> into NaN, so both
  \<open>getSaldo\<close> and \<open>safeNumber\<close> read 0 for a row whose current balance is such a pair. With
  a finite assets total above 0 the outlier filter drops every such row. The two ranking
  lists are the same with and without the rows that carry a pair, and the rankings and
  the map of the variations are the same whatever pair the rows carry: the number
  inside the pair never enters them.
\<close>

theorem object_balances_read_as_zero:
  "(saldoAtual r = VObj m \<longrightarrow>
      NumberAny (saldoAtual r) = NaN \<and> getSaldo r = 0 \<and> safeNumber (saldoAtual r) = 0 \<and>
      (0 < a \<longrightarrow> r \<notin> set (filterOutliersForRankings rows (Fin a)))) \<and>
   rankings (filter (\<lambda>r. \<not> isObj (saldoAtual r)) base) perFile = rankings base perFile \<and>
   rankings (map (replaceObj m') base) perFile = rankings base perFile \<and>
   variations (map (replaceObj m') base) perFile = variations base perFile"
  by (simp add: NumberAny_obj getSaldo_obj safeNumber_obj filterOutliers_drops_obj
      rankings_drop_obj rankings_replaceObj variations_replaceObj)

theorem object_balances_read_as_zero_witness:
  "saldoAtual objRow = VObj \<lparr>m_raw = ''5.000,00'', m_value = Fin 5000\<rparr> \<and>
   getSaldo objRow = 0 \<and> numFromAny (saldoAtual objRow) = 5000 \<and>
   objRow \<notin> set (filterOutliersForRankings [objRow] (Fin 10000)) \<and>
   rankings [] [(''2024'', 10000)] = rankings [objRow] [(''2024'', 10000)]"
  using object_balances_read_as_zero [of objRow "\<lparr>m_raw = ''5.000,00'', m_value = Fin 5000\<rparr>"
      10000 "[objRow]" "[objRow]" "[(''2024'', 10000)]"]
  by (simp add: objRow_def exRow_def isObj_def numFromAny_def finiteOr0_def)

subsection \<open>Classification normalizer\<close>

lemma last_dropWhile: "dropWhile P xs \<noteq> [] \<Longrightarrow> last (dropWhile P xs) = last xs"
  by (induction xs) (auto split: if_splits)

lemma trim_ends:
  assumes "trim s \<noteq> []"
  shows "\<not> isSpace (hd (trim s))" "\<not> isSpace (last (trim s))"
proof -
  define u where "u = dropWhile isSpace s"
  define w where "w = dropWhile isSpace (rev u)"
  have t: "trim s = rev w" by (simp add: trim_def u_def w_def)
  have w: "w \<noteq> []" using assms t by simp
  then have u: "u \<noteq> []" unfolding w_def by auto
  have "\<not> isSpace (hd w)" using w unfolding w_def by (rule hd_dropWhile)
  then show "\<not> isSpace (last (trim s))" using w by (simp add: t last_rev)
  have "last w = last (rev u)" using w unfolding w_def by (rule last_dropWhile)
  then have "hd (trim s) = hd u" using w u by (simp add: t hd_rev last_rev)
  moreover have "\<not> isSpace (hd u)" using u unfolding u_def by (rule hd_dropWhile)
  ultimately show "\<not> isSpace (hd (trim s))" by simp
qed

lemma trim_Nil: "trim [] = []"
  by (simp add: trim_def)

lemma trim_trim: "trim (trim s) = trim s"
proof (cases "trim s = []")
  case True
  then show ?thesis by (simp add: trim_Nil)
next
  case False
  then show ?thesis by (simp add: trim_id trim_ends)
qed

lemma isRoot_not_space: "isRoot c \<Longrightarrow> \<not> isSpace c"
  by (auto simp: isRoot_def isSpace_def)

lemma trim_dotted:
  assumes "isRoot a" "ds \<noteq> []" "isDigit (last ds)"
  shows "trim (a # ds) = a # ds"
  using assms by (intro trim_id) (auto simp: isRoot_not_space isDigit_not_space)

lemma normalizeClassification_idem: "normalizeClassification (normalizeClassification x) = normalizeClassification x"
proof -
  define raw where "raw = trim x"
  have tr: "trim raw = raw" by (simp add: raw_def trim_trim)
  consider (empty) "raw = []" | (dotted) "raw \<noteq> []" "dottedStart raw"
    | (dec) a b c ds where "raw \<noteq> []" "\<not> dottedStart raw" "fusedDecimal raw = Some (a, b, c, ds)"
    | (four) a b c d where "raw \<noteq> []" "\<not> dottedStart raw" "fusedDecimal raw = None" "fusedFour raw = Some (a, b, c, d)"
    | (other) "raw \<noteq> []" "\<not> dottedStart raw" "fusedDecimal raw = None" "fusedFour raw = None"
    by (cases "fusedDecimal raw"; cases "fusedFour raw") auto
  then show ?thesis
  proof cases
    case empty
    then have "normalizeClassification x = []"
      by (simp add: normalizeClassification_def raw_def [symmetric])
    moreover have "normalizeClassification [] = []"
      by (simp add: normalizeClassification_def trim_Nil)
    ultimately show ?thesis by simp
  next
    case dotted
    then have "normalizeClassification x = raw"
      by (simp add: normalizeClassification_def raw_def [symmetric])
    moreover have "normalizeClassification raw = raw"
      using dotted by (simp add: normalizeClassification_def tr)
    ultimately show ?thesis by simp
  next
    case dec
    from dec(3) have p: "isRoot a" "isDigit b" "isDigit c" "ds \<noteq> []" "list_all isDigit ds"
      by (cases raw rule: fusedDecimal.cases; auto split: if_splits)+
    let ?out = "[a, CHR ''.'', b, CHR ''.'', c, CHR ''.''] @ ds"
    have n1: "normalizeClassification x = ?out"
      using dec by (simp add: normalizeClassification_def raw_def [symmetric])
    have "isDigit (last ds)" using p(4,5) by (simp add: list_all_iff)
    then have "trim ?out = ?out" using p trim_dotted [of a "[CHR ''.'', b, CHR ''.'', c, CHR ''.''] @ ds"]
      by simp
    moreover have "dottedStart ?out" using p by simp
    ultimately have "normalizeClassification ?out = ?out"
      by (simp add: normalizeClassification_def)
    then show ?thesis by (simp only: n1)
  next
    case four
    from four(4) have p: "isRoot a" "isDigit b" "isDigit c" "isDigit d"
      by (cases raw rule: fusedFour.cases; auto split: if_splits)+
    let ?out = "[a, CHR ''.'', b, CHR ''.'', c, CHR ''.'', d]"
    have n1: "normalizeClassification x = ?out"
      using four by (simp add: normalizeClassification_def raw_def [symmetric])
    have "trim ?out = ?out" using p trim_dotted [of a "[CHR ''.'', b, CHR ''.'', c, CHR ''.'', d]"]
      by simp
    moreover have "dottedStart ?out" using p by simp
    ultimately have "normalizeClassification ?out = ?out"
      by (simp add: normalizeClassification_def)
    then show ?thesis by (simp only: n1)
  next
    case other
    then have "normalizeClassification x = raw"
      by (simp add: normalizeClassification_def raw_def [symmetric])
    moreover have "normalizeClassification raw = raw"
      using other by (simp add: normalizeClassification_def tr)
    ultimately show ?thesis by simp
  qed
qed

lemma normalizeClassification_kpi_eq: "normalizeClassification_kpi x = normalizeClassification x"
  by (simp add: normalizeClassification_kpi_def normalizeClassification_def Let_def split: option.splits)

lemma normalizeClassification_ae_eq: "normalizeClassification_ae x = normalizeClassification x"
  by (simp add: normalizeClassification_ae_def normalizeClassification_def Let_def split: option.splits)

text \<open>
  C8: classification normalization is idempotent, for the copy of the normalizer and for
  the copy of the KPI engine: normalizing a normalized value returns it unchanged.
\<close>

theorem normalizeClassification_idempotent:
  "normalizeClassification (normalizeClassification x) = normalizeClassification x \<and>
   normalizeClassification_kpi (normalizeClassification_kpi x) = normalizeClassification_kpi x"
  by (simp add: normalizeClassification_kpi_eq normalizeClassification_idem)

lemma normalizeClassification_example: "normalizeClassification '' 311.05 '' = ''3.1.1.05''"
  by (simp add: normalizeClassification_def trim_def isSpace_def isRoot_def isDigit_def)

theorem normalizeClassification_idempotent_witness:
  "normalizeClassification '' 311.05 '' = ''3.1.1.05'' \<and>
   normalizeClassification ''3.1.1.05'' = ''3.1.1.05'' \<and>
   normalizeClassification_kpi (normalizeClassification_kpi ''3110'') = normalizeClassification_kpi ''3110''"
  using normalizeClassification_idempotent [of "'' 311.05 ''"] normalizeClassification_idempotent [of "''3110''"]
  by (simp add: normalizeClassification_example)

subsection \<open>Order of the period labels\<close>

lemma mset_insertBy: "mset (insertBy cmp x ys) = add_mset x (mset ys)"
  by (induction ys) auto

lemma mset_jsSort: "mset (jsSort cmp xs) = mset xs"
  by (induction xs) (auto simp: jsSort_def mset_insertBy)

lemma sorted_wrt_insertBy:
  assumes le: "\<And>a b. cmp a b \<le> 0 \<Longrightarrow> R a b"
    and gt: "\<And>a b. \<not> cmp a b \<le> 0 \<Longrightarrow> R b a"
    and tr: "\<And>a b c. R a b \<Longrightarrow> R b c \<Longrightarrow> R a c"
    and s: "sorted_wrt R ys"
  shows "sorted_wrt R (insertBy cmp x ys)"
  using s
proof (induction ys)
  case Nil
  then show ?case by simp
next
  case (Cons y ys)
  show ?case
  proof (cases "cmp x y \<le> 0")
    case True
    then have "R x y" by (rule le)
    moreover have "\<forall>z\<in>set ys. R x z" using \<open>R x y\<close> Cons.prems tr by auto
    ultimately show ?thesis using True Cons.prems by simp
  next
    case False
    then have "R y x" by (rule gt)
    then show ?thesis using False Cons by (auto simp: set_insertBy)
  qed
qed

lemma sorted_wrt_jsSort:
  assumes "\<And>a b. cmp a b \<le> 0 \<Longrightarrow> R a b"
    and "\<And>a b. \<not> cmp a b \<le> 0 \<Longrightarrow> R b a"
    and "\<And>a b c. R a b \<Longrightarrow> R b c \<Longrightarrow> R a c"
  shows "sorted_wrt R (jsSort cmp xs)"
proof (induction xs)
  case Nil
  then show ?case by (simp add: jsSort_def)
next
  case (Cons x xs)
  have "jsSort cmp (x # xs) = insertBy cmp x (jsSort cmp xs)" by (simp add: jsSort_def)
  then show ?case using sorted_wrt_insertBy [of cmp R, OF assms Cons] by simp
qed

lemma keyLess_trans: "keyLess a b \<Longrightarrow> keyLess b c \<Longrightarrow> keyLess a c"
  by (auto simp: keyLess_def)

lemma keyLess_irrefl: "\<not> keyLess a a"
  by (auto simp: keyLess_def)

lemma keyLess_asym: "keyLess a b \<Longrightarrow> \<not> keyLess b a"
  by (auto simp: keyLess_def)

lemma keyLess_total: "keyLess a b \<or> a = b \<or> keyLess b a"
  by (cases a; cases b; auto simp: keyLess_def)

lemma not_keyLess_trans: "\<not> keyLess b a \<Longrightarrow> \<not> keyLess c b \<Longrightarrow> \<not> keyLess c a"
  using keyLess_total [of a b] keyLess_total [of b c] keyLess_trans by metis

lemma periodCmp_le:
  "periodCmp lc a b \<le> 0 \<longleftrightarrow>
     keyLess (pairKey a) (pairKey b) \<or> (pairKey a = pairKey b \<and> lc (fst a) (fst b) \<le> 0)"
  by (auto simp: periodCmp_def Let_def keyLess_def pairKey_def)

lemma sorted_keys_pairs:
  "sorted_wrt (\<lambda>a b. \<not> keyLess (pairKey b) (pairKey a)) (jsSort (periodCmp lc) xs)"
proof (rule sorted_wrt_jsSort)
  fix a b :: "string \<times> parsedPeriod"
  show "periodCmp lc a b \<le> 0 \<Longrightarrow> \<not> keyLess (pairKey b) (pairKey a)"
    by (auto simp: periodCmp_le keyLess_irrefl dest: keyLess_asym)
  show "\<not> periodCmp lc a b \<le> 0 \<Longrightarrow> \<not> keyLess (pairKey a) (pairKey b)"
    by (auto simp: periodCmp_le)
next
  fix a b c :: "string \<times> parsedPeriod"
  show "\<not> keyLess (pairKey b) (pairKey a) \<Longrightarrow> \<not> keyLess (pairKey c) (pairKey b) \<Longrightarrow>
        \<not> keyLess (pairKey c) (pairKey a)"
    by (rule not_keyLess_trans)
qed

lemma sorted_full_pairs:
  assumes tot: "\<forall>a b. lc a b \<le> 0 \<or> lc b a \<le> 0"
    and tr: "\<forall>a b c. lc a b \<le> 0 \<and> lc b c \<le> 0 \<longrightarrow> lc a c \<le> 0"
  shows "sorted_wrt (\<lambda>a b. keyLess (pairKey a) (pairKey b) \<or>
            (pairKey a = pairKey b \<and> lc (fst a) (fst b) \<le> 0)) (jsSort (periodCmp lc) xs)"
proof (rule sorted_wrt_jsSort)
  fix a b :: "string \<times> parsedPeriod"
  show "periodCmp lc a b \<le> 0 \<Longrightarrow>
        keyLess (pairKey a) (pairKey b) \<or> (pairKey a = pairKey b \<and> lc (fst a) (fst b) \<le> 0)"
    by (simp add: periodCmp_le)
  show "\<not> periodCmp lc a b \<le> 0 \<Longrightarrow>
        keyLess (pairKey b) (pairKey a) \<or> (pairKey b = pairKey a \<and> lc (fst b) (fst a) \<le> 0)"
    using tot keyLess_total [of "pairKey a" "pairKey b"] by (auto simp: periodCmp_le)
next
  fix a b c :: "string \<times> parsedPeriod"
  assume "keyLess (pairKey a) (pairKey b) \<or> (pairKey a = pairKey b \<and> lc (fst a) (fst b) \<le> 0)"
    "keyLess (pairKey b) (pairKey c) \<or> (pairKey b = pairKey c \<and> lc (fst b) (fst c) \<le> 0)"
  then show "keyLess (pairKey a) (pairKey c) \<or> (pairKey a = pairKey c \<and> lc (fst a) (fst c) \<le> 0)"
    using tr keyLess_trans by metis
qed

lemma sorted_wrt_map_fst:
  assumes "sorted_wrt (\<lambda>a b. Q (fst a) (fst b) (snd a) (snd b)) xs" "\<forall>x\<in>set xs. snd x = f (fst x)"
  shows "sorted_wrt (\<lambda>a b. Q a b (f a) (f b)) (map fst xs)"
  using assms by (induction xs) auto

lemma sortPeriodLabels_raw:
  assumes "\<forall>l\<in>set labels. p_kind (parsePeriod l) = KindRaw"
  shows "sortPeriodLabels lc labels = labels"
  using assms by (simp add: sortPeriodLabels_def Let_def list_ex_iff)

lemma sortPeriodLabels_parsed:
  assumes "\<exists>l\<in>set labels. p_kind (parsePeriod l) \<noteq> KindRaw"
  shows "sortPeriodLabels lc labels = map fst (jsSort (periodCmp lc) (map (\<lambda>raw. (raw, parsePeriod raw)) labels))"
  using assms by (auto simp: sortPeriodLabels_def Let_def list_ex_iff)

lemma mset_sortPeriodLabels: "mset (sortPeriodLabels lc labels) = mset labels"
proof (cases "\<exists>l\<in>set labels. p_kind (parsePeriod l) \<noteq> KindRaw")
  case True
  have "mset (map fst (jsSort (periodCmp lc) (map (\<lambda>raw. (raw, parsePeriod raw)) labels)))
      = mset labels"
    by (simp add: mset_jsSort image_mset.compositionality comp_def)
  then show ?thesis by (simp only: sortPeriodLabels_parsed [OF True])
next
  case False
  then show ?thesis by (simp add: sortPeriodLabels_raw)
qed

lemma pairKey_periodKey: "snd x = parsePeriod (fst x) \<Longrightarrow> pairKey x = periodKey (fst x)"
  by (simp add: pairKey_def periodKey_def Let_def)

lemma sortPeriodLabels_keys:
  assumes "\<exists>l\<in>set labels. p_kind (parsePeriod l) \<noteq> KindRaw"
  shows "sorted_wrt (\<lambda>a b. \<not> keyLess (periodKey b) (periodKey a)) (sortPeriodLabels lc labels)"
proof -
  let ?ps = "jsSort (periodCmp lc) (map (\<lambda>raw. (raw, parsePeriod raw)) labels)"
  have inv: "\<forall>x\<in>set ?ps. snd x = parsePeriod (fst x)" by (auto simp: set_jsSort)
  have srt: "sorted_wrt (\<lambda>a b. \<not> keyLess (pairKey b) (pairKey a)) ?ps" by (rule sorted_keys_pairs)
  have "sorted_wrt (\<lambda>a b. \<not> keyLess (periodKey (fst b)) (periodKey (fst a))) ?ps"
  proof (rule sorted_wrt_mono_rel [OF _ srt])
    fix x y assume "x \<in> set ?ps" "y \<in> set ?ps" "\<not> keyLess (pairKey y) (pairKey x)"
    moreover from this have "pairKey x = periodKey (fst x)" "pairKey y = periodKey (fst y)"
      using inv pairKey_periodKey by blast+
    ultimately show "\<not> keyLess (periodKey (fst y)) (periodKey (fst x))" by simp
  qed
  then show ?thesis by (simp add: sortPeriodLabels_parsed [OF assms] sorted_wrt_map)
qed

lemma sortPeriodLabels_full:
  assumes "\<exists>l\<in>set labels. p_kind (parsePeriod l) \<noteq> KindRaw"
    and tot: "\<forall>a b. lc a b \<le> 0 \<or> lc b a \<le> 0"
    and tr: "\<forall>a b c. lc a b \<le> 0 \<and> lc b c \<le> 0 \<longrightarrow> lc a c \<le> 0"
  shows "sorted_wrt (\<lambda>a b. keyLess (periodKey a) (periodKey b) \<or>
            (periodKey a = periodKey b \<and> lc a b \<le> 0)) (sortPeriodLabels lc labels)"
proof -
  let ?ps = "jsSort (periodCmp lc) (map (\<lambda>raw. (raw, parsePeriod raw)) labels)"
  have inv: "\<forall>x\<in>set ?ps. snd x = parsePeriod (fst x)" by (auto simp: set_jsSort)
  have srt: "sorted_wrt (\<lambda>a b. keyLess (pairKey a) (pairKey b) \<or>
            (pairKey a = pairKey b \<and> lc (fst a) (fst b) \<le> 0)) ?ps"
    by (rule sorted_full_pairs [OF tot tr])
  have "sorted_wrt (\<lambda>a b. keyLess (periodKey (fst a)) (periodKey (fst b)) \<or>
            (periodKey (fst a) = periodKey (fst b) \<and> lc (fst a) (fst b) \<le> 0)) ?ps"
  proof (rule sorted_wrt_mono_rel [OF _ srt])
    fix x y assume a: "x \<in> set ?ps" "y \<in> set ?ps"
      "keyLess (pairKey x) (pairKey y) \<or> (pairKey x = pairKey y \<and> lc (fst x) (fst y) \<le> 0)"
    then have "pairKey x = periodKey (fst x)" "pairKey y = periodKey (fst y)"
      using inv pairKey_periodKey by blast+
    then show "keyLess (periodKey (fst x)) (periodKey (fst y)) \<or>
            (periodKey (fst x) = periodKey (fst y) \<and> lc (fst x) (fst y) \<le> 0)"
      using a(3) by simp
  qed
  then show ?thesis by (simp add: sortPeriodLabels_parsed [OF assms(1)] sorted_wrt_map)
qed

lemma codeUnitCompare_total: "codeUnitCompare a b \<le> 0 \<or> codeUnitCompare b a \<le> 0"
  by (induction a b rule: codeUnitCompare.induct) (auto simp: not_less)

lemma codeUnitCompare_trans:
  "codeUnitCompare a b \<le> 0 \<Longrightarrow> codeUnitCompare b c \<le> 0 \<Longrightarrow> codeUnitCompare a c \<le> 0"
proof (induction a b arbitrary: c rule: codeUnitCompare.induct)
  case (4 x xs y ys)
  then show ?case by (cases c) (auto split: if_splits)
next
  case 1 then show ?case by (cases c) auto
next
  case 2 then show ?case by (cases c) auto
next
  case 3 then show ?case by (cases c) auto
qed

lemmas parsePeriod_eval = parsePeriod_def trim_def isSpace_def tqAt_def ymMatch_def yyMatch_def
  isDigit_def decValue_def radixValue_def digitVal_def digitTable_def

lemma parsePeriod_examples:
  "parsePeriod ''abc'' = \<lparr>p_kind = KindRaw, p_y = 0, p_n = 0\<rparr>"
  "parsePeriod ''zzz'' = \<lparr>p_kind = KindRaw, p_y = 0, p_n = 0\<rparr>"
  "parsePeriod ''2023'' = \<lparr>p_kind = KindY, p_y = 2023, p_n = 0\<rparr>"
  "parsePeriod ''T1/2024'' = \<lparr>p_kind = KindQ, p_y = 2024, p_n = 1\<rparr>"
  "parsePeriod ''T2/2024'' = \<lparr>p_kind = KindQ, p_y = 2024, p_n = 2\<rparr>"
  "parsePeriod ''2024-03'' = \<lparr>p_kind = KindM, p_y = 2024, p_n = 3\<rparr>"
  by (simp_all add: parsePeriod_eval)

lemmas sortPeriodLabels_eval = sortPeriodLabels_def parsePeriod_examples jsSort_def periodCmp_def
  orderKind_def

text \<open>
  C4, amended: \<open>sortPeriodLabels\<close> returns a permutation of the labels. When no label
  parses, the list is returned unchanged. Otherwise the labels are ordered by kind, bare
  years first, then quarters, then year-months, then the unparsed labels last, and within
  a kind by year and then index; and when the collation \<open>localeCompare\<close> is a total
  preorder, labels with the same kind, year and index (all unparsed labels among them) are
  ordered by it.
\<close>

theorem sortPeriodLabels_order:
  "mset (sortPeriodLabels lc labels) = mset labels \<and>
   orderKind KindY < orderKind KindQ \<and> orderKind KindQ < orderKind KindM \<and>
   orderKind KindM < orderKind KindRaw \<and>
   ((\<forall>l\<in>set labels. p_kind (parsePeriod l) = KindRaw) \<longrightarrow> sortPeriodLabels lc labels = labels) \<and>
   ((\<exists>l\<in>set labels. p_kind (parsePeriod l) \<noteq> KindRaw) \<longrightarrow>
      sorted_wrt (\<lambda>a b. \<not> keyLess (periodKey b) (periodKey a)) (sortPeriodLabels lc labels) \<and>
      ((\<forall>a b. lc a b \<le> 0 \<or> lc b a \<le> 0) \<and> (\<forall>a b c. lc a b \<le> 0 \<and> lc b c \<le> 0 \<longrightarrow> lc a c \<le> 0) \<longrightarrow>
         sorted_wrt (\<lambda>a b. keyLess (periodKey a) (periodKey b) \<or> (periodKey a = periodKey b \<and> lc a b \<le> 0))
           (sortPeriodLabels lc labels)))"
proof (intro conjI impI)
  show "mset (sortPeriodLabels lc labels) = mset labels" by (rule mset_sortPeriodLabels)
  show "orderKind KindY < orderKind KindQ" "orderKind KindQ < orderKind KindM"
    "orderKind KindM < orderKind KindRaw" by (simp_all add: orderKind_def)
next
  assume "\<forall>l\<in>set labels. p_kind (parsePeriod l) = KindRaw"
  then show "sortPeriodLabels lc labels = labels" by (rule sortPeriodLabels_raw)
next
  assume "\<exists>l\<in>set labels. p_kind (parsePeriod l) \<noteq> KindRaw"
  then show "sorted_wrt (\<lambda>a b. \<not> keyLess (periodKey b) (periodKey a)) (sortPeriodLabels lc labels)"
    by (rule sortPeriodLabels_keys)
next
  assume p: "\<exists>l\<in>set labels. p_kind (parsePeriod l) \<noteq> KindRaw"
    and "(\<forall>a b. lc a b \<le> 0 \<or> lc b a \<le> 0) \<and> (\<forall>a b c. lc a b \<le> 0 \<and> lc b c \<le> 0 \<longrightarrow> lc a c \<le> 0)"
  then have "\<forall>a b. lc a b \<le> 0 \<or> lc b a \<le> 0" "\<forall>a b c. lc a b \<le> 0 \<and> lc b c \<le> 0 \<longrightarrow> lc a c \<le> 0"
    by blast+
  then show "sorted_wrt (\<lambda>a b. keyLess (periodKey a) (periodKey b) \<or> (periodKey a = periodKey b \<and> lc a b \<le> 0))
           (sortPeriodLabels lc labels)"
    by (rule sortPeriodLabels_full [OF p])
qed

lemma sortPeriodLabels_example:
  "sortPeriodLabels codeUnitCompare [''T2/2024'', ''2024-03'', ''zzz'', ''2023'', ''T1/2024'', ''abc'']
     = [''2023'', ''T1/2024'', ''T2/2024'', ''2024-03'', ''abc'', ''zzz'']"
  by (simp add: sortPeriodLabels_eval)

text \<open>
  C4, as stated, at a year and an unparsed label: the unparsed label is sorted after the
  year, not before it (its kind has rank 9, above every parsed kind); and a list in which
  no label parses is returned as it is, so two unparsed labels stay in their input order
  although the collation puts them the other way round.
\<close>

theorem sortPeriodLabels_unparsed_counterexample:
  "p_kind (parsePeriod ''abc'') = KindRaw \<and> p_kind (parsePeriod ''zzz'') = KindRaw \<and>
   p_kind (parsePeriod ''2023'') = KindY \<and>
   sortPeriodLabels codeUnitCompare [''abc'', ''2023''] = [''2023'', ''abc''] \<and>
   codeUnitCompare ''abc'' ''zzz'' < 0 \<and>
   sortPeriodLabels codeUnitCompare [''zzz'', ''abc''] = [''zzz'', ''abc'']"
  by (simp add: sortPeriodLabels_eval)

theorem sortPeriodLabels_order_witness:
  "p_kind (parsePeriod ''2023'') \<noteq> KindRaw \<and>
   sortPeriodLabels codeUnitCompare [''T2/2024'', ''2024-03'', ''zzz'', ''2023'', ''T1/2024'', ''abc'']
     = [''2023'', ''T1/2024'', ''T2/2024'', ''2024-03'', ''abc'', ''zzz''] \<and>
   sorted_wrt (\<lambda>a b. keyLess (periodKey a) (periodKey b) \<or> (periodKey a = periodKey b \<and> codeUnitCompare a b \<le> 0))
     [''2023'', ''T1/2024'', ''T2/2024'', ''2024-03'', ''abc'', ''zzz'']"
proof -
  let ?ex = "[''T2/2024'', ''2024-03'', ''zzz'', ''2023'', ''T1/2024'', ''abc'']"
  have 1: "\<forall>a b. codeUnitCompare a b \<le> 0 \<or> codeUnitCompare b a \<le> 0"
    using codeUnitCompare_total by blast
  have 2: "\<forall>a b c. codeUnitCompare a b \<le> 0 \<and> codeUnitCompare b c \<le> 0 \<longrightarrow> codeUnitCompare a c \<le> 0"
    using codeUnitCompare_trans by blast
  have 3: "\<exists>l\<in>set ?ex. p_kind (parsePeriod l) \<noteq> KindRaw"
    by (simp add: parsePeriod_examples)
  have "sorted_wrt (\<lambda>a b. keyLess (periodKey a) (periodKey b) \<or> (periodKey a = periodKey b \<and> codeUnitCompare a b \<le> 0))
     (sortPeriodLabels codeUnitCompare ?ex)"
    using sortPeriodLabels_order [of codeUnitCompare ?ex] 1 2 3 by blast
  then have "sorted_wrt (\<lambda>a b. keyLess (periodKey a) (periodKey b) \<or> (periodKey a = periodKey b \<and> codeUnitCompare a b \<le> 0))
     [''2023'', ''T1/2024'', ''T2/2024'', ''2024-03'', ''abc'', ''zzz'']"
    by (simp only: sortPeriodLabels_example)
  moreover have "p_kind (parsePeriod ''2023'') \<noteq> KindRaw" by (simp add: parsePeriod_examples)
  ultimately show ?thesis using sortPeriodLabels_example by blast
qed

subsection \<open>Normalizer\<close>

lemma upt_plus_Suc: "[n..<n + Suc k] = n # [Suc n..<Suc n + k]"
  by (subst upt_conv_Cons) simp_all

lemma pushRows_char:
  assumes "\<forall>a\<in>set rows. a < length h0 \<and> (\<exists>r. h0 ! a = RawObj r)" "length h0 \<le> length h"
    "\<forall>a<length h0. h ! a = h0 ! a"
  shows "pushRows ctx rows h out =
     Some (h @ map (\<lambda>a. NormObj (normalizedOf ctx (the (rawAt h0 a)))) rows,
           out @ [length h ..< length h + length rows])"
  using assms
proof (induction rows arbitrary: h out)
  case Nil
  then show ?case by simp
next
  case (Cons a rows)
  from Cons.prems obtain r where r: "a < length h0" "h0 ! a = RawObj r" by auto
  then have ra: "rawAt h a = Some r" "rawAt h0 a = Some r"
    using Cons.prems by (auto simp: rawAt_def)
  let ?h = "h @ [NormObj (normalizedOf ctx r)]"
  have ih: "pushRows ctx rows ?h (out @ [length h]) =
     Some (?h @ map (\<lambda>a. NormObj (normalizedOf ctx (the (rawAt h0 a)))) rows,
           (out @ [length h]) @ [length ?h ..< length ?h + length rows])"
    using Cons.prems by (intro Cons.IH) (auto simp: nth_append)
  have u: "[length h ..< length h + length (a # rows)] = length h # [length ?h ..< length ?h + length rows]"
    using upt_plus_Suc [of "length h" "length rows"] by simp
  have "pushRows ctx (a # rows) h out = pushRows ctx rows ?h (out @ [length h])"
    by (simp add: ra)
  also note ih
  finally show ?case unfolding u by (simp add: ra)
qed

lemma fixGroups_char:
  assumes "\<forall>x\<in>set xs. \<exists>n. x = NormObj n"
  shows "fixGroups [length pre ..< length pre + length xs] (pre @ xs) = Some (pre @ map fixObj xs)"
  using assms
proof (induction xs arbitrary: pre)
  case Nil
  then show ?case by simp
next
  case (Cons x xs)
  then obtain n where n: "x = NormObj n" by auto
  have na: "normAt (pre @ x # xs) (length pre) = Some n" by (simp add: normAt_def n)
  have upd: "(pre @ x # xs)[length pre := NormObj (fallbackGroup n)] = (pre @ [fixObj x]) @ xs"
    by (simp add: n fixObj_def)
  have ih: "fixGroups [length (pre @ [fixObj x]) ..< length (pre @ [fixObj x]) + length xs] ((pre @ [fixObj x]) @ xs)
      = Some ((pre @ [fixObj x]) @ map fixObj xs)"
    using Cons.prems by (intro Cons.IH) auto
  have u: "[length pre ..< length pre + length (x # xs)]
      = length pre # [length (pre @ [fixObj x]) ..< length (pre @ [fixObj x]) + length xs]"
    using upt_plus_Suc [of "length pre" "length xs"] by simp
  have "fixGroups [length pre ..< length pre + length (x # xs)] (pre @ x # xs)
      = fixGroups [length (pre @ [fixObj x]) ..< length (pre @ [fixObj x]) + length xs] ((pre @ [fixObj x]) @ xs)"
    unfolding u by (simp only: fixGroups.simps na option.simps upd)
  also note ih
  finally show ?case by simp
qed

lemma normalizeBase_char:
  assumes "\<forall>a\<in>set rows. a < length h \<and> (\<exists>r. h ! a = RawObj r)"
  shows "normalizeBase h rows ctx =
     Some (h @ map (\<lambda>a. NormObj (fallbackGroup (normalizedOf ctx (the (rawAt h a))))) rows,
           [length h ..< length h + length rows])"
proof -
  let ?xs = "map (\<lambda>a. NormObj (normalizedOf ctx (the (rawAt h a)))) rows"
  have p: "pushRows ctx rows h [] = Some (h @ ?xs, [length h ..< length h + length rows])"
    using pushRows_char [OF assms, of h ctx "[]"] by simp
  have "fixGroups [length h ..< length h + length ?xs] (h @ ?xs) = Some (h @ map fixObj ?xs)"
    by (rule fixGroups_char) auto
  then have f: "fixGroups [length h ..< length h + length rows] (h @ ?xs)
      = Some (h @ map (\<lambda>a. NormObj (fallbackGroup (normalizedOf ctx (the (rawAt h a))))) rows)"
    by (simp add: fixObj_def comp_def)
  show ?thesis by (simp add: normalizeBase_def p f)
qed

lemma fallbackGroup_frame:
  "saldoAtual (fallbackGroup rr) = saldoAtual rr" "saldoAnterior (fallbackGroup rr) = saldoAnterior rr"
  "debito (fallbackGroup rr) = debito rr" "credito (fallbackGroup rr) = credito rr"
  "rawLine (fallbackGroup rr) = rawLine rr" "code (fallbackGroup rr) = code rr"
  "period (fallbackGroup rr) = period rr" "year (fallbackGroup rr) = year rr"
  "classification (fallbackGroup rr) = classification rr" "description (fallbackGroup rr) = description rr"
  by (simp_all add: fallbackGroup_def Let_def)

lemma normalizedOf_fields:
  "saldoAtual (normalizedOf ctx r) = moneyAny (cr_saldoAtual r)"
  "saldoAnterior (normalizedOf ctx r) = moneyAny (cr_saldoAnterior r)"
  "debito (normalizedOf ctx r) = moneyAny (cr_debito r)"
  "credito (normalizedOf ctx r) = moneyAny (cr_credito r)"
  "rawLine (normalizedOf ctx r) = Some (cr_rawLine r)"
  "code (normalizedOf ctx r) = cr_code r"
  "period (normalizedOf ctx r) = trim (ctx_period ctx)"
  "year (normalizedOf ctx r) = ctx_year ctx"
  by (simp_all add: normalizedOf_def Let_def)

text \<open>
  C9: when every address in \<open>rows\<close> holds a row of the ledger parser, \<open>normalizeBase\<close>
  returns one new record per input row, in the order of the input (its array \<open>out\<close> has
  the length of \<open>rows\<close>, and the store grows by exactly that many objects, at fresh,
  distinct addresses). Every object of the store before the call, the source rows among
  them, is unchanged after it. The record for the row at position \<open>i\<close> has the four
  monetary fields, the raw line and the code of that row, and the period and year of the
  context.
\<close>

theorem normalizeBase_frame:
  assumes "\<forall>a\<in>set rows. a < length h \<and> (\<exists>r. h ! a = RawObj r)"
  shows "\<exists>h' out. normalizeBase h rows ctx = Some (h', out) \<and>
           length out = length rows \<and> length h' = length h + length rows \<and>
           distinct out \<and> (\<forall>a\<in>set out. length h \<le> a) \<and>
           (\<forall>a<length h. h' ! a = h ! a) \<and>
           (\<forall>i<length rows. \<exists>r n.
               rawAt h (rows ! i) = Some r \<and> rawAt h' (rows ! i) = Some r \<and>
               normAt h' (out ! i) = Some n \<and>
               saldoAtual n = moneyAny (cr_saldoAtual r) \<and>
               saldoAnterior n = moneyAny (cr_saldoAnterior r) \<and>
               debito n = moneyAny (cr_debito r) \<and>
               credito n = moneyAny (cr_credito r) \<and>
               rawLine n = Some (cr_rawLine r) \<and> code n = cr_code r \<and>
               period n = trim (ctx_period ctx) \<and> year n = ctx_year ctx)"
proof -
  define h' where "h' = h @ map (\<lambda>a. NormObj (fallbackGroup (normalizedOf ctx (the (rawAt h a))))) rows"
  define out where "out = [length h ..< length h + length rows]"
  have nb: "normalizeBase h rows ctx = Some (h', out)"
    unfolding h'_def out_def by (rule normalizeBase_char [OF assms])
  have old: "\<forall>a<length h. h' ! a = h ! a" by (simp add: h'_def nth_append)
  have rowsOK: "\<exists>r n.
               rawAt h (rows ! i) = Some r \<and> rawAt h' (rows ! i) = Some r \<and>
               normAt h' (out ! i) = Some n \<and>
               saldoAtual n = moneyAny (cr_saldoAtual r) \<and>
               saldoAnterior n = moneyAny (cr_saldoAnterior r) \<and>
               debito n = moneyAny (cr_debito r) \<and>
               credito n = moneyAny (cr_credito r) \<and>
               rawLine n = Some (cr_rawLine r) \<and> code n = cr_code r \<and>
               period n = trim (ctx_period ctx) \<and> year n = ctx_year ctx" if i: "i < length rows" for i
  proof -
    from assms i obtain r where r: "rows ! i < length h" "h ! (rows ! i) = RawObj r"
      by (meson nth_mem)
    then have 1: "rawAt h (rows ! i) = Some r" by (simp add: rawAt_def)
    have 2: "rawAt h' (rows ! i) = Some r" using r old by (simp add: rawAt_def h'_def nth_append)
    have oi: "out ! i = length h + i" using i by (simp add: out_def)
    have 3: "normAt h' (out ! i) = Some (fallbackGroup (normalizedOf ctx r))"
      using i 1 by (simp add: normAt_def oi h'_def nth_append)
    show ?thesis
      using 1 2 3 by (simp add: fallbackGroup_frame normalizedOf_fields)
  qed
  have "length out = length rows" "length h' = length h + length rows" "distinct out"
    "\<forall>a\<in>set out. length h \<le> a"
    by (simp_all add: out_def h'_def)
  with nb old rowsOK show ?thesis by blast
qed

theorem normalizeBase_frame_witness:
  "normalizeBase [RawObj exRaw1] [0] exCtx =
     Some ([RawObj exRaw1,
            NormObj \<lparr>period = ''2024'', year = Some 2024, classification = Some ''1.1.01'',
              code = Some ''11'', description = Some ''Caixa'', group = Some GrpOUTROS,
              saldoAtual = VObj \<lparr>m_raw = ''1.000,00'', m_value = Fin 1000\<rparr>,
              saldoAnterior = VObj \<lparr>m_raw = ''900,00'', m_value = Fin 900\<rparr>,
              debito = VObj \<lparr>m_raw = ''200,00'', m_value = Fin 200\<rparr>,
              credito = VObj \<lparr>m_raw = ''100,00'', m_value = Fin 100\<rparr>,
              rawLine = Some ''11 1.1.01 Caixa 1.000,00 900,00 200,00 100,00''\<rparr>], [1])"
  using normalizeBase_frame [of "[0]" "[RawObj exRaw1]" exCtx]
  by (simp add: normalizeBase_def rawAt_def normAt_def normalizedOf_def fallbackGroup_def exRaw1_def
      exCtx_def moneyAny_def optStr_def trim_def isSpace_def normalizeClassification_def isRoot_def
      isDigit_def normalizeText_def stripMark_def baseTable_def toUpperCase_def upperChar_def
      upperTable_def collapseSpaces_def Let_def)

subsection \<open>Confidence gate of the income-statement KPIs\<close>

lemmas kpi_eval = dreRow_def optStr_def trim_def isSpace_def normalizeClassification_kpi_def
  isRoot_def isDigit_def startsWith_def numFromAny_def finiteOr0_def dreValue_def rowValue_def
  bucketKey_def normalizeText_def toUpperCase_def collapseSpaces_def brRound_def Let_def

lemma map_fst_mapSet:
  "map fst (mapSet m k v) = (if k \<in> fst ` set m then map fst m else map fst m @ [k])"
  by (induction m) (force+)

lemma distinct_mapSet: "distinct (map fst m) \<Longrightarrow> distinct (map fst (mapSet m k v))"
  by (simp add: map_fst_mapSet)

lemma distinct_groupStep: "distinct (map fst m) \<Longrightarrow> distinct (map fst (groupStep m r))"
  by (simp add: groupStep_def Let_def distinct_mapSet)

lemma distinct_foldl_groupStep:
  "distinct (map fst m) \<Longrightarrow> distinct (map fst (foldl groupStep m base))"
  by (induction base arbitrary: m) (auto simp: distinct_groupStep)

lemma distinct_byPeriodMap: "distinct (map fst (byPeriodMap base))"
  by (simp add: byPeriodMap_def distinct_foldl_groupStep)

lemma pushed_notes:
  "snd (kpiOfPeriod p rows) = (if confident (figuresOf rows) then [] else [InsufficientValidation p])"
  by (simp add: kpiOfPeriod_def Let_def)

lemma count_notes_absent:
  "p \<notin> fst ` set m \<Longrightarrow>
   count_list (concat (map (\<lambda>e. snd (kpiOfPeriod (fst e) (snd e))) m)) (InsufficientValidation p) = 0"
  by (induction m) (auto simp: pushed_notes)

lemma count_notes_present:
  assumes "distinct (map fst m)" "(p, rows) \<in> set m"
  shows "count_list (concat (map (\<lambda>e. snd (kpiOfPeriod (fst e) (snd e))) m)) (InsufficientValidation p)
     = (if confident (figuresOf rows) then 0 else 1)"
  using assms
proof (induction m)
  case Nil
  then show ?case by simp
next
  case (Cons e m)
  show ?case
  proof (cases "e = (p, rows)")
    case True
    then have "p \<notin> fst ` set m" using Cons.prems(1) by auto
    then show ?thesis using True by (simp add: count_notes_absent pushed_notes [of p rows])
  next
    case False
    then have in_m: "(p, rows) \<in> set m" using Cons.prems(2) by auto
    then have "fst e \<noteq> p" using Cons.prems(1) by (metis distinct.simps(2) fst_conv image_eqI list.simps(9) set_map)
    then show ?thesis using Cons.IH in_m Cons.prems(1)
      by (simp add: pushed_notes [of "fst e" "snd e"])
  qed
qed

lemma gated_fields:
  assumes "\<not> confident (figuresOf rows)"
  shows "receita_liquida (fst (kpiOfPeriod p rows)) = 0" "receita_bruta (fst (kpiOfPeriod p rows)) = 0"
    "deducoes (fst (kpiOfPeriod p rows)) = 0" "cmv_cpv (fst (kpiOfPeriod p rows)) = 0"
    "despesas_admin (fst (kpiOfPeriod p rows)) = 0" "despesas_comerciais (fst (kpiOfPeriod p rows)) = 0"
    "outras_despesas (fst (kpiOfPeriod p rows)) = 0" "lucro_bruto (fst (kpiOfPeriod p rows)) = None"
    "resultado_operacional (fst (kpiOfPeriod p rows)) = None" "lucro_liquido (fst (kpiOfPeriod p rows)) = None"
    "margem_bruta_pct (fst (kpiOfPeriod p rows)) = None" "margem_liquida_pct (fst (kpiOfPeriod p rows)) = None"
  using assms by (simp_all add: kpiOfPeriod_def Let_def)

lemma ungated_fields:
  "buckets (fst (kpiOfPeriod p rows)) = computeBuckets rows" "k_period (fst (kpiOfPeriod p rows)) = p"
  by (simp_all add: kpiOfPeriod_def Let_def)

lemma notes_count:
  assumes "(p, rows) \<in> set (byPeriodMap base)"
  shows "count_list (snd (computeTccKpisFromBase base)) (InsufficientValidation p)
     = (if confident (figuresOf rows) then 0 else 1)"
  using count_notes_present [OF distinct_byPeriodMap assms] assms
  by (auto simp: computeTccKpisFromBase_def Let_def comp_def)

lemma element_present:
  assumes "(p, rows) \<in> set (byPeriodMap base)"
  shows "fst (kpiOfPeriod p rows) \<in> set (fst (computeTccKpisFromBase base))"
  using assms by (force simp: computeTccKpisFromBase_def Let_def comp_def)

lemma byPeriodMap_dreRow: "byPeriodMap [dreRow] = [(''2024'', [dreRow])]"
  by (simp add: byPeriodMap_def groupStep_def isDreRelevantRow_def dreRow_def)

lemma sums_dreRow:
  "sumByClassificationPrefixAbs [dreRow] PLAN_PREFIX_receita_bruta PreferCredito = 1000"
  "sumByClassificationPrefixAbs [dreRow] PLAN_PREFIX_deducoes PreferDebito = 0"
  "sumByClassificationPrefixAbs [dreRow] PLAN_PREFIX_cmv_cpv PreferDebito = 0"
  "sumByClassificationPrefixAbs [dreRow] PLAN_PREFIX_despesas_admin PreferDebito = 0"
  "sumByMatchAbs [dreRow] pats pref = 0"
  "sumByBucketAbs [dreRow] [''3.2''] = 0"
  "sumByBucketAbs [dreRow] [''3.3'', ''3.4'', ''3.5''] = 0"
  "sumByBucketAbs [dreRow] [''3.7'', ''3.8''] = 0"
  by (simp_all add: sumByClassificationPrefixAbs_def sumByMatchAbs_def sumByBucketAbs_def
      PLAN_PREFIX_receita_bruta_def PLAN_PREFIX_deducoes_def PLAN_PREFIX_cmv_cpv_def
      PLAN_PREFIX_despesas_admin_def kpi_eval)

lemma figuresOf_dreRow:
  "figuresOf [dreRow] =
     \<lparr>f_receita_liquida = 1000, f_receita_bruta = 1000, f_deducoes = 0, f_cmv_cpv = 0,
      f_despesas_admin = 0, f_despesas_comerciais = 0, f_outras_despesas = 0,
      f_lucro_bruto = Some 1000, f_resultado_operacional = Some 1000\<rparr>"
  by (simp add: figuresOf_def sums_dreRow Let_def brRound_def)

lemma computeBuckets_dreRow:
  "computeBuckets [dreRow] = [\<lparr>b_key = ''3.1'', b_total = - 1000, b_lines = 1\<rparr>]"
  by (simp add: computeBuckets_def bucketStep_def jsSort_def kpi_eval)

text \<open>
  C6, amended: for every period of the map built by \<open>computeTccKpisFromBase\<close>, the element
  of that period is in the result, and the flag \<open>confident\<close> holds iff gross or net revenue
  is above 0 and at least one of cost of goods, administrative, commercial or other
  expenses is above 0. When the flag is false, the seven revenue and cost figures of the
  element are 0, its five derived results and margins are null, and the notes contain the
  note of insufficient validation for that period exactly once; when it is true they
  contain none. The bucket totals of the element are the computed ones in both cases.
\<close>

theorem confidence_gating:
  assumes "(p, rows) \<in> set (byPeriodMap base)"
  shows "(let f = figuresOf rows; k = fst (kpiOfPeriod p rows) in
     k \<in> set (fst (computeTccKpisFromBase base)) \<and> k_period k = p \<and>
     (confident f \<longleftrightarrow>
        (f_receita_bruta f > 0 \<or> f_receita_liquida f > 0) \<and>
        (f_cmv_cpv f > 0 \<or> f_despesas_admin f > 0 \<or> f_despesas_comerciais f > 0 \<or>
         f_outras_despesas f > 0)) \<and>
     (\<not> confident f \<longrightarrow>
        receita_liquida k = 0 \<and> receita_bruta k = 0 \<and> deducoes k = 0 \<and> cmv_cpv k = 0 \<and>
        despesas_admin k = 0 \<and> despesas_comerciais k = 0 \<and> outras_despesas k = 0 \<and>
        lucro_bruto k = None \<and> resultado_operacional k = None \<and> lucro_liquido k = None \<and>
        margem_bruta_pct k = None \<and> margem_liquida_pct k = None \<and>
        count_list (snd (computeTccKpisFromBase base)) (InsufficientValidation p) = 1) \<and>
     (confident f \<longrightarrow>
        count_list (snd (computeTccKpisFromBase base)) (InsufficientValidation p) = 0) \<and>
     buckets k = computeBuckets rows)"
  using element_present [OF assms] notes_count [OF assms]
  by (simp add: Let_def gated_fields ungated_fields confident_def [of "figuresOf rows"])

text \<open>
  C6, as stated, at a period with one revenue row and no cost row: the period is not
  confident and gets its note, yet the bucket totals of the period are reported as
  computed (here -1000), not forced to 0.
\<close>

theorem gating_buckets_counterexample:
  "byPeriodMap [dreRow] = [(''2024'', [dreRow])] \<and>
   \<not> confident (figuresOf [dreRow]) \<and>
   snd (computeTccKpisFromBase [dreRow]) = [InsufficientValidation ''2024''] \<and>
   map buckets (fst (computeTccKpisFromBase [dreRow])) =
     [[\<lparr>b_key = ''3.1'', b_total = - 1000, b_lines = 1\<rparr>]]"
  by (simp add: computeTccKpisFromBase_def byPeriodMap_dreRow kpiOfPeriod_def figuresOf_dreRow
      confident_def computeBuckets_dreRow Let_def)

theorem confidence_gating_witness:
  "(''2024'', [dreRow]) \<in> set (byPeriodMap [dreRow]) \<and>
   \<not> confident (figuresOf [dreRow]) \<and>
   f_receita_bruta (figuresOf [dreRow]) = 1000 \<and>
   receita_bruta (fst (kpiOfPeriod ''2024'' [dreRow])) = 0 \<and>
   receita_liquida (fst (kpiOfPeriod ''2024'' [dreRow])) = 0 \<and>
   lucro_bruto (fst (kpiOfPeriod ''2024'' [dreRow])) = None \<and>
   count_list (snd (computeTccKpisFromBase [dreRow])) (InsufficientValidation ''2024'') = 1"
proof -
  have m: "(''2024'', [dreRow]) \<in> set (byPeriodMap [dreRow])" by (simp add: byPeriodMap_dreRow)
  have c: "\<not> confident (figuresOf [dreRow])" by (simp add: figuresOf_dreRow confident_def)
  show ?thesis
    using confidence_gating [OF m] c m by (simp add: Let_def figuresOf_dreRow)
qed

subsection \<open>Buffered total line of the ledger parser\<close>













end
